theory Spec2Isabelle
  imports Complex_Main "HOL-Library.Log_Nat"
begin

text \<open>
  The weather back end: the handlers of \<open>controllers/weatherController.ts\<close>, the service
  of \<open>services/weatherService.ts\<close> behind them and the two coordinate routes of
  \<open>routes/weatherRoutes.ts\<close>, all from \<open>weather_backend_server.ts\<close>.  A handler is a
  function from the world it runs in to its outcome, a payload or what it throws, and the
  world it leaves.
\<close>

section \<open>JavaScript values\<close>

text \<open>
  The upstream reply is typed \<open>any\<close> in the source, so the model keeps a small universe of
  JavaScript values.  A number is an IEEE double: a finite rational, or one of the three
  special values.  An object is the list of its own properties, one pair per key.
\<close>

datatype jsnum = Finite rat | NaN | PosInf | NegInf

datatype jsval =
    JUndefined
  | JNull
  | JBool bool
  | JNum jsnum
  | JStr string
  | JArr "jsval list"
  | JObj "(string \<times> jsval) list"

text \<open>
  Everything the modelled code can throw or reject with: a \<open>TypeError\<close> of the language, the
  rejection of \<open>axios.get\<close> (carrying the HTTP status when the server answered at all), the
  repository's own \<open>ApiError\<close> (status code and message, \<open>utils/ApiError.ts\<close>), a
  rejection of a cache operation, and the refusal of a request by the validation middleware.
\<close>

datatype thrown =
    TypeError
  | AxiosError "nat option"
  | ApiError nat string
  | CacheFault
  | ValidationError

type_synonym 'a result = "thrown + 'a"

text \<open>
  \<open>v.p\<close>: reading a property of \<open>undefined\<close> or \<open>null\<close> throws; an object yields the
  property or \<open>undefined\<close>; the other values have none of the property names used here.
\<close>

fun getProp :: "string \<Rightarrow> jsval \<Rightarrow> jsval result" where
  "getProp p JUndefined = Inl TypeError"
| "getProp p JNull = Inl TypeError"
| "getProp p (JObj ps) = Inr (case map_of ps p of None \<Rightarrow> JUndefined | Some v \<Rightarrow> v)"
| "getProp p v = Inr JUndefined"

text \<open>\<open>v[0]\<close>: the first element of an array, the first character of a string.\<close>

fun index0 :: "jsval \<Rightarrow> jsval result" where
  "index0 JUndefined = Inl TypeError"
| "index0 JNull = Inl TypeError"
| "index0 (JArr xs) = Inr (case xs of [] \<Rightarrow> JUndefined | x # _ \<Rightarrow> x)"
| "index0 (JStr s) = Inr (case s of [] \<Rightarrow> JUndefined | c # _ \<Rightarrow> JStr [c])"
| "index0 (JObj ps) = Inr (case map_of ps ''0'' of None \<Rightarrow> JUndefined | Some v \<Rightarrow> v)"
| "index0 v = Inr JUndefined"

text \<open>
  Functions of the language runtime and of the libraries that the code calls on values of
  unknown shape.  They are parameters of the model: the operators \<open>*\<close> and \<open>/\<close> with
  their coercions, \<open>String.prototype.toLowerCase\<close>, \<open>parseFloat\<close>, the rendering of a number
  inside a template literal, and the validator's \<open>isFloat\<close>.
\<close>

record jsrt =
  js_mul :: "jsval \<Rightarrow> jsval \<Rightarrow> jsval"
  js_div :: "jsval \<Rightarrow> jsval \<Rightarrow> jsval"
  js_lower :: "string \<Rightarrow> string"
  js_parseFloat :: "string \<Rightarrow> jsnum"
  js_numstr :: "jsnum \<Rightarrow> string"
  js_isFloat :: "string \<Rightarrow> bool"

text \<open>\<open>v.toLowerCase()\<close>: only a string has the method.\<close>

fun toLowerCase :: "jsrt \<Rightarrow> jsval \<Rightarrow> jsval result" where
  "toLowerCase rt (JStr s) = Inr (JStr (js_lower rt s))"
| "toLowerCase rt v = Inl TypeError"

text \<open>Sequencing of computations that may throw.\<close>

definition bindR :: "'a result \<Rightarrow> ('a \<Rightarrow> 'b result) \<Rightarrow> 'b result" where
  "bindR m f = (case m of Inl e \<Rightarrow> Inl e | Inr x \<Rightarrow> f x)"

text \<open>\<open>v.p.q\<close>\<close>

definition prop2 :: "string \<Rightarrow> string \<Rightarrow> jsval \<Rightarrow> jsval result" where
  "prop2 p q v = bindR (getProp p v) (getProp q)"

text \<open>\<open>v.weather[0].q\<close>\<close>

definition weather0 :: "string \<Rightarrow> jsval \<Rightarrow> jsval result" where
  "weather0 q v = bindR (bindR (getProp ''weather'' v) index0) (getProp q)"

section \<open>Payloads (\<open>types/weather.ts\<close>)\<close>

record WeatherData =
  location :: jsval
  country :: jsval
  temperature :: jsval
  feelsLike :: jsval
  humidity :: jsval
  pressure :: jsval
  windSpeed :: jsval
  windDirection :: jsval
  visibility :: jsval
  uvIndex :: int
  condition :: jsval
  description :: jsval
  icon :: jsval
  timestamp :: int
  coordinates :: "jsval \<times> jsval"

record ForecastData =
  f_date :: jsval
  f_temperature :: jsval
  f_feelsLike :: jsval
  f_humidity :: jsval
  f_pressure :: jsval
  f_windSpeed :: jsval
  f_condition :: jsval
  f_description :: jsval
  f_icon :: jsval
  f_precipitationProbability :: jsval

record HistoricalData =
  h_date :: int
  h_temperature :: rat
  h_humidity :: rat
  h_windSpeed :: rat
  h_condition :: "string option"
  h_description :: string

record WeatherAlert =
  a_id :: string
  a_title :: string
  a_description :: string
  a_severity :: string
  a_startTime :: int
  a_endTime :: int
  a_area :: string

text \<open>
  A field that the source fills with \<open>toISOString()\<close> holds the instant itself, in
  milliseconds since the epoch.  \<open>h_condition\<close> is \<open>None\<close> where the source's array read
  would yield \<open>undefined\<close>.
\<close>

datatype payload =
    PWeather WeatherData
  | PForecast "ForecastData list"
  | PHistory "HistoricalData list"
  | PAlerts "WeatherAlert list"

section \<open>Double arithmetic\<close>

text \<open>
  The mock generators compute with \<open>Math.random()\<close> and numeric literals, so their operands
  are known doubles and the arithmetic is modelled exactly: every operation is the exact
  rational result rounded to the nearest double, ties to the even significand (53 bits,
  gradual underflow below \<open>2\<^sup>-\<^sup>1\<^sup>0\<^sup>2\<^sup>2\<close>).  Overflow to infinity is not represented; the
  values computed here stay below 128.
\<close>

text \<open>The exponent \<open>e\<close> of a positive rational: \<open>2\<^sup>e \<le> x < 2\<^sup>e\<^sup>+\<^sup>1\<close>.\<close>

definition expo :: "rat \<Rightarrow> int" where
  "expo x =
     (let (a, b) = quotient_of x;
          e0 = bitlen a - bitlen b
      in if power_int 2 e0 \<le> x then e0 else e0 - 1)"

text \<open>Round to the nearest integer, ties to even.\<close>

definition rne :: "rat \<Rightarrow> int" where
  "rne q =
     (let n = \<lfloor>q\<rfloor>; f = q - of_int n
      in if f < 1 / 2 then n
         else if 1 / 2 < f then n + 1
         else if even n then n else n + 1)"

text \<open>The spacing of the doubles around a positive rational.\<close>

definition ulp :: "rat \<Rightarrow> rat" where
  "ulp x = power_int 2 (max (expo x) (- 1022) - 52)"

definition fl :: "rat \<Rightarrow> rat" where
  "fl x =
     (if x = 0 then 0
      else if 0 < x then of_int (rne (x / ulp x)) * ulp x
      else - (of_int (rne (- x / ulp (- x))) * ulp (- x)))"

definition dmul :: "rat \<Rightarrow> rat \<Rightarrow> rat" where
  "dmul x y = fl (x * y)"

definition dadd :: "rat \<Rightarrow> rat \<Rightarrow> rat" where
  "dadd x y = fl (x + y)"

text \<open>A value that \<open>Math.random()\<close> may return: a double in \<open>[0, 1)\<close>.\<close>

definition is_draw :: "rat \<Rightarrow> bool" where
  "is_draw r \<longleftrightarrow> 0 \<le> r \<and> r < 1 \<and> fl r = r"

section \<open>The world outside the controller\<close>

datatype http_result = HttpOk jsval | HttpFail "nat option"

text \<open>
  Calls to collaborators are recorded, newest first: reads and writes of the cache service,
  entries into a method of the weather service, HTTP requests, and error log lines.
\<close>

datatype event =
    CacheGet string
  | CacheSet string payload nat
  | SvcCall string
  | HttpGet string "(string \<times> jsval) list"
  | LogError string

text \<open>
  The state a request runs in.  \<open>upstream\<close> is the answer the weather provider gives to a
  URL and its parameters: a 2xx reply with its parsed body, or a failure, with the HTTP
  status when the server answered and without one for a timeout or a transport failure.
  \<open>rand\<close> is the sequence of values \<open>Math.random()\<close> returns and \<open>clock\<close> the sequence of
  readings of the system clock, in milliseconds; \<open>rpos\<close> and \<open>cpos\<close> count the values
  consumed.  \<open>apiKey\<close> is \<open>OPENWEATHER_API_KEY\<close>.
\<close>

record world =
  entries :: "string \<Rightarrow> (payload \<times> nat \<times> nat) option"
  cache_time :: nat
  read_fault :: bool
  write_fault :: bool
  apiKey :: string
  upstream :: "string \<Rightarrow> (string \<times> jsval) list \<Rightarrow> http_result"
  rand :: "nat \<Rightarrow> rat"
  rpos :: nat
  clock :: "nat \<Rightarrow> int"
  cpos :: nat
  trace :: "event list"

definition emit :: "event \<Rightarrow> world \<Rightarrow> world" where
  "emit ev w = w\<lparr>trace := ev # trace w\<rparr>"

definition random :: "world \<Rightarrow> rat \<times> world" where
  "random w = (rand w (rpos w), w\<lparr>rpos := Suc (rpos w)\<rparr>)"

definition now :: "world \<Rightarrow> int \<times> world" where
  "now w = (clock w (cpos w), w\<lparr>cpos := Suc (cpos w)\<rparr>)"

subsection \<open>The cache service\<close>

text \<open>
  \<open>services/cacheService\<close> is imported by the controller but is not among the sources; its
  three definitions here follow the spec's Cache Store.
\<close>

text \<open>
  Modelled from the spec: the Cache Store maps a key to a payload, its insertion time and its
  TTL in seconds; an entry is valid if and only if the current time is before insertion time
  plus TTL, and an expired entry is absent.  \<open>holds\<close> is the payload of the valid entry under
  a key.
\<close>

definition holds :: "world \<Rightarrow> string \<Rightarrow> payload option" where
  "holds w k =
     (case entries w k of
        None \<Rightarrow> None
      | Some (p, t0, ttl) \<Rightarrow> if cache_time w < t0 + ttl then Some p else None)"

text \<open>
  Modelled from the spec: \<open>cacheService.get(key)\<close> resolves to the payload of the valid
  entry or to nothing, and rejects when the backend faults on reads.
\<close>

definition cache_get :: "world \<Rightarrow> string \<Rightarrow> payload option result \<times> world" where
  "cache_get w k =
     (let w' = emit (CacheGet k) w
      in if read_fault w then (Inl CacheFault, w') else (Inr (holds w k), w'))"

text \<open>
  Modelled from the spec: \<open>cacheService.set(key, value, ttl)\<close> stores the payload with the
  current time and the TTL, replacing what was there, and rejects when the backend faults on
  writes.
\<close>

definition cache_set :: "world \<Rightarrow> string \<Rightarrow> payload \<Rightarrow> nat \<Rightarrow> unit result \<times> world" where
  "cache_set w k p ttl =
     (let w' = emit (CacheSet k p ttl) w
      in if write_fault w then (Inl CacheFault, w')
         else (Inr (), w'\<lparr>entries := (entries w)(k \<mapsto> (p, cache_time w, ttl))\<rparr>))"

section \<open>The weather service (\<open>services/weatherService.ts\<close>)\<close>

definition baseUrl :: string where
  "baseUrl = ''https://api.openweathermap.org/data/2.5''"

text \<open>\<open>axios.get(url, {params, timeout: 10000})\<close>\<close>

definition axios_get :: "world \<Rightarrow> string \<Rightarrow> (string \<times> jsval) list \<Rightarrow> jsval result \<times> world" where
  "axios_get w url params =
     (case upstream w url params of
        HttpOk d \<Rightarrow> (Inr d, emit (HttpGet url params) w)
      | HttpFail st \<Rightarrow> (Inl (AxiosError st), emit (HttpGet url params) w))"

text \<open>
  The object literal of \<open>transformWeatherData\<close> is evaluated field by field, in the order of
  the source; the first read that throws ends it.  The fields before \<open>uvIndex\<close>:
\<close>

definition weather_head ::
  "jsrt \<Rightarrow> jsval \<Rightarrow>
   (jsval \<times> jsval \<times> jsval \<times> jsval \<times> jsval \<times> jsval \<times> jsval \<times> jsval \<times> jsval) result" where
  "weather_head rt d =
     bindR (getProp ''name'' d) (\<lambda>loc.
     bindR (prop2 ''sys'' ''country'' d) (\<lambda>ctry.
     bindR (prop2 ''main'' ''temp'' d) (\<lambda>temp.
     bindR (prop2 ''main'' ''feels_like'' d) (\<lambda>feels.
     bindR (prop2 ''main'' ''humidity'' d) (\<lambda>hum.
     bindR (prop2 ''main'' ''pressure'' d) (\<lambda>pres.
     bindR (prop2 ''wind'' ''speed'' d) (\<lambda>speed.
     bindR (prop2 ''wind'' ''deg'' d) (\<lambda>deg.
     bindR (getProp ''visibility'' d) (\<lambda>vis.
       Inr (loc, ctry, temp, feels, hum, pres,
            js_mul rt speed (JNum (Finite (fl (18 / 5)))), deg,
            js_div rt vis (JNum (Finite 1000))))))))))))"

text \<open>The fields between \<open>uvIndex\<close> and \<open>timestamp\<close>:\<close>

definition weather_mid :: "jsrt \<Rightarrow> jsval \<Rightarrow> (jsval \<times> jsval \<times> jsval) result" where
  "weather_mid rt d =
     bindR (bindR (weather0 ''main'' d) (toLowerCase rt)) (\<lambda>cond.
     bindR (weather0 ''description'' d) (\<lambda>desc.
     bindR (weather0 ''icon'' d) (\<lambda>ic.
       Inr (cond, desc, ic))))"

text \<open>The field after \<open>timestamp\<close>:\<close>

definition weather_coord :: "jsval \<Rightarrow> (jsval \<times> jsval) result" where
  "weather_coord d =
     bindR (prop2 ''coord'' ''lat'' d) (\<lambda>la.
     bindR (prop2 ''coord'' ''lon'' d) (\<lambda>lo.
       Inr (la, lo)))"

definition transformWeatherData :: "jsrt \<Rightarrow> world \<Rightarrow> jsval \<Rightarrow> WeatherData result \<times> world" where
  "transformWeatherData rt w d =
     (case weather_head rt d of
        Inl e \<Rightarrow> (Inl e, w)
      | Inr (loc, ctry, temp, feels, hum, pres, wspeed, deg, vis) \<Rightarrow>
          (let (r, w1) = random w;
               uv = \<lfloor>dmul r 11\<rfloor>
           in case weather_mid rt d of
                Inl e \<Rightarrow> (Inl e, w1)
              | Inr (cond, desc, ic) \<Rightarrow>
                  (let (t, w2) = now w1
                   in case weather_coord d of
                        Inl e \<Rightarrow> (Inl e, w2)
                      | Inr c \<Rightarrow>
                          (Inr \<lparr>location = loc, country = ctry, temperature = temp,
                                feelsLike = feels, humidity = hum, pressure = pres,
                                windSpeed = wspeed, windDirection = deg, visibility = vis,
                                uvIndex = uv, condition = cond, description = desc,
                                icon = ic, timestamp = t, coordinates = c\<rparr>,
                           w2))))"

text \<open>One element of \<open>data.list.map(...)\<close>\<close>

definition forecast_item :: "jsrt \<Rightarrow> jsval \<Rightarrow> ForecastData result" where
  "forecast_item rt item =
     bindR (getProp ''dt_txt'' item) (\<lambda>dt.
     bindR (prop2 ''main'' ''temp'' item) (\<lambda>temp.
     bindR (prop2 ''main'' ''feels_like'' item) (\<lambda>feels.
     bindR (prop2 ''main'' ''humidity'' item) (\<lambda>hum.
     bindR (prop2 ''main'' ''pressure'' item) (\<lambda>pres.
     bindR (prop2 ''wind'' ''speed'' item) (\<lambda>speed.
     bindR (bindR (weather0 ''main'' item) (toLowerCase rt)) (\<lambda>cond.
     bindR (weather0 ''description'' item) (\<lambda>desc.
     bindR (weather0 ''icon'' item) (\<lambda>ic.
     bindR (getProp ''pop'' item) (\<lambda>pop.
       Inr \<lparr>f_date = dt, f_temperature = temp, f_feelsLike = feels, f_humidity = hum,
            f_pressure = pres,
            f_windSpeed = js_mul rt speed (JNum (Finite (fl (18 / 5)))),
            f_condition = cond, f_description = desc, f_icon = ic,
            f_precipitationProbability = js_mul rt pop (JNum (Finite 100))\<rparr>))))))))))"

fun map_items :: "jsrt \<Rightarrow> jsval list \<Rightarrow> ForecastData list result" where
  "map_items rt [] = Inr []"
| "map_items rt (item # items) =
     bindR (forecast_item rt item) (\<lambda>x.
     bindR (map_items rt items) (\<lambda>xs. Inr (x # xs)))"

text \<open>\<open>data.list.map\<close> is a function only when \<open>data.list\<close> is an array.\<close>

definition transformForecastData :: "jsrt \<Rightarrow> jsval \<Rightarrow> ForecastData list result" where
  "transformForecastData rt d =
     bindR (getProp ''list'' d) (\<lambda>l.
       case l of JArr items \<Rightarrow> map_items rt items | _ \<Rightarrow> Inl TypeError)"

text \<open>
  The two \<open>catch\<close> blocks of the service: the by-name methods turn an HTTP 404 into
  \<open>ApiError(404)\<close> and everything else into \<open>ApiError(500)\<close>; the by-coordinates methods
  know the second case only.
\<close>

definition catch_404 :: "string \<Rightarrow> 'a result \<times> world \<Rightarrow> 'a result \<times> world" where
  "catch_404 msg rw =
     (case rw of
        (Inr x, w) \<Rightarrow> (Inr x, w)
      | (Inl e, w) \<Rightarrow>
          (if e = AxiosError (Some 404)
           then (Inl (ApiError 404 ''Location not found''), emit (LogError msg) w)
           else (Inl (ApiError 500 ''Weather service unavailable''), emit (LogError msg) w)))"

definition catch_500 :: "string \<Rightarrow> string \<Rightarrow> 'a result \<times> world \<Rightarrow> 'a result \<times> world" where
  "catch_500 msg err rw =
     (case rw of
        (Inr x, w) \<Rightarrow> (Inr x, w)
      | (Inl e, w) \<Rightarrow> (Inl (ApiError 500 err), emit (LogError msg) w))"

definition name_params :: "world \<Rightarrow> string \<Rightarrow> (string \<times> jsval) list" where
  "name_params w loc = [(''q'', JStr loc), (''appid'', JStr (apiKey w)), (''units'', JStr ''metric'')]"

definition coord_params :: "world \<Rightarrow> jsnum \<Rightarrow> jsnum \<Rightarrow> (string \<times> jsval) list" where
  "coord_params w lat lon =
     [(''lat'', JNum lat), (''lon'', JNum lon), (''appid'', JStr (apiKey w)),
      (''units'', JStr ''metric'')]"

definition svc_getCurrentWeather :: "jsrt \<Rightarrow> world \<Rightarrow> string \<Rightarrow> WeatherData result \<times> world" where
  "svc_getCurrentWeather rt w loc =
     catch_404 ''Failed to fetch current weather:''
       (case axios_get (emit (SvcCall ''getCurrentWeather'') w)
               (baseUrl @ ''/weather'') (name_params w loc) of
          (Inl e, w1) \<Rightarrow> (Inl e, w1)
        | (Inr d, w1) \<Rightarrow> transformWeatherData rt w1 d)"

definition svc_getCurrentWeatherByCoords ::
  "jsrt \<Rightarrow> world \<Rightarrow> jsnum \<Rightarrow> jsnum \<Rightarrow> WeatherData result \<times> world" where
  "svc_getCurrentWeatherByCoords rt w lat lon =
     catch_500 ''Failed to fetch weather by coordinates:'' ''Weather service unavailable''
       (case axios_get (emit (SvcCall ''getCurrentWeatherByCoords'') w)
               (baseUrl @ ''/weather'') (coord_params w lat lon) of
          (Inl e, w1) \<Rightarrow> (Inl e, w1)
        | (Inr d, w1) \<Rightarrow> transformWeatherData rt w1 d)"

definition svc_getForecast :: "jsrt \<Rightarrow> world \<Rightarrow> string \<Rightarrow> ForecastData list result \<times> world" where
  "svc_getForecast rt w loc =
     catch_404 ''Failed to fetch forecast:''
       (case axios_get (emit (SvcCall ''getForecast'') w)
               (baseUrl @ ''/forecast'') (name_params w loc) of
          (Inl e, w1) \<Rightarrow> (Inl e, w1)
        | (Inr d, w1) \<Rightarrow> (transformForecastData rt d, w1))"

definition svc_getForecastByCoords ::
  "jsrt \<Rightarrow> world \<Rightarrow> jsnum \<Rightarrow> jsnum \<Rightarrow> ForecastData list result \<times> world" where
  "svc_getForecastByCoords rt w lat lon =
     catch_500 ''Failed to fetch forecast by coordinates:'' ''Weather service unavailable''
       (case axios_get (emit (SvcCall ''getForecastByCoords'') w)
               (baseUrl @ ''/forecast'') (coord_params w lat lon) of
          (Inl e, w1) \<Rightarrow> (Inl e, w1)
        | (Inr d, w1) \<Rightarrow> (transformForecastData rt d, w1))"

text \<open>
  \<open>getHistoricalWeather\<close> generates its data.  \<open>['clear', 'clouds', 'rain'][k]\<close> is
  \<open>undefined\<close> outside the array.  \<open>date.setDate(date.getDate() - i)\<close> moves the date back
  by \<open>i\<close> calendar days; in a time zone of constant offset that is \<open>i\<close> times 86400000
  milliseconds.
\<close>

definition conditions :: "string list" where
  "conditions = [''clear'', ''clouds'', ''rain'']"

definition pick :: "string list \<Rightarrow> int \<Rightarrow> string option" where
  "pick xs k = (if 0 \<le> k \<and> k < int (length xs) then Some (xs ! nat k) else None)"

definition hist_entry :: "world \<Rightarrow> int \<Rightarrow> int \<Rightarrow> HistoricalData \<times> world" where
  "hist_entry w currentDate i =
     (let date = currentDate - i * 86400000;
          (r1, w1) = random w;
          (r2, w2) = random w1;
          (r3, w3) = random w2;
          (r4, w4) = random w3
      in (\<lparr>h_date = date,
           h_temperature = dadd 20 (dmul r1 15),
           h_humidity = dadd 40 (dmul r2 40),
           h_windSpeed = dmul r3 20,
           h_condition = pick conditions \<lfloor>dmul r4 3\<rfloor>,
           h_description = ''Historical weather data''\<rparr>,
          w4))"

text \<open>\<open>for (let i = days; i > 0; i--) historicalData.push(...)\<close>\<close>

function hist_loop ::
  "world \<Rightarrow> int \<Rightarrow> int \<Rightarrow> HistoricalData list \<Rightarrow> HistoricalData list \<times> world" where
  "hist_loop w currentDate i historicalData =
     (if 0 < i
      then (case hist_entry w currentDate i of
              (x, w') \<Rightarrow> hist_loop w' currentDate (i - 1) (historicalData @ [x]))
      else (historicalData, w))"
  by pat_completeness auto
termination
  by (relation "measure (\<lambda>(w, c, i, h). nat i)") auto

declare hist_loop.simps [simp del]

definition svc_getHistoricalWeather ::
  "world \<Rightarrow> string \<Rightarrow> int \<Rightarrow> HistoricalData list result \<times> world" where
  "svc_getHistoricalWeather w loc days =
     (let (currentDate, w1) = now (emit (SvcCall ''getHistoricalWeather'') w);
          (historicalData, w2) = hist_loop w1 currentDate days []
      in (Inr historicalData, w2))"

text \<open>\<open>getWeatherAlerts\<close>: the literal \<open>0.8\<close> is the double nearest to 4/5.\<close>

definition svc_getWeatherAlerts :: "world \<Rightarrow> string \<Rightarrow> WeatherAlert list result \<times> world" where
  "svc_getWeatherAlerts w loc =
     (let (randomAlert, w1) = random (emit (SvcCall ''getWeatherAlerts'') w)
      in if fl (4 / 5) < randomAlert
         then (let (t1, w2) = now w1;
                   (t2, w3) = now w2
               in (Inr [\<lparr>a_id = ''alert_001'',
                         a_title = ''Heat Wave Warning'',
                         a_description = ''Extremely high temperatures expected. Stay hydrated and avoid prolonged sun exposure.'',
                         a_severity = ''moderate'',
                         a_startTime = t1,
                         a_endTime = t2 + 24 * 60 * 60 * 1000,
                         a_area = loc\<rparr>],
                   w3))
         else (Inr [], w1))"

section \<open>Numbers in strings\<close>

text \<open>
  \<open>parseInt(s)\<close> without a radix: leading white space is skipped, then an optional sign,
  then \<open>0x\<close> or \<open>0X\<close> switches to radix 16; the longest prefix of digits is the value, and
  there is no value (\<open>NaN\<close>) when that prefix is empty.  Strings are byte strings, so the
  white space is the ASCII one; the value is exact, as in JavaScript below \<open>2\<^sup>5\<^sup>3\<close>.
\<close>

definition is_ws :: "char \<Rightarrow> bool" where
  "is_ws c \<longleftrightarrow> (of_char c :: nat) \<in> {9, 10, 11, 12, 13, 32}"

definition digit_val :: "nat \<Rightarrow> char \<Rightarrow> nat option" where
  "digit_val radix c =
     (let n = (of_char c :: nat);
          v = (if 48 \<le> n \<and> n \<le> 57 then Some (n - 48)
               else if 97 \<le> n \<and> n \<le> 102 then Some (n - 87)
               else if 65 \<le> n \<and> n \<le> 70 then Some (n - 55)
               else None)
      in case v of None \<Rightarrow> None | Some d \<Rightarrow> if d < radix then Some d else None)"

fun digits :: "nat \<Rightarrow> string \<Rightarrow> nat list" where
  "digits radix [] = []"
| "digits radix (c # cs) =
     (case digit_val radix c of None \<Rightarrow> [] | Some d \<Rightarrow> d # digits radix cs)"

definition parseInt :: "string \<Rightarrow> int option" where
  "parseInt s =
     (let s1 = dropWhile is_ws s;
          neg = (take 1 s1 = ''-'');
          s2 = (if take 1 s1 = ''-'' \<or> take 1 s1 = ''+'' then drop 1 s1 else s1);
          hex = (take 2 s2 = ''0x'' \<or> take 2 s2 = ''0X'');
          radix = (if hex then 16 else 10);
          ds = digits radix (if hex then drop 2 s2 else s2)
      in if ds = [] then None
         else Some ((if neg then - 1 else 1) * int (foldl (\<lambda>a d. a * radix + d) 0 ds)))"

text \<open>The decimal rendering of an integer, as a template literal produces it.\<close>

fun dec :: "nat \<Rightarrow> string" where
  "dec n =
     (if n < 10 then [''0123456789'' ! n]
      else dec (n div 10) @ [''0123456789'' ! (n mod 10)])"

declare dec.simps [simp del]

definition show_int :: "int \<Rightarrow> string" where
  "show_int i = (if i < 0 then CHR ''-'' # dec (nat (- i)) else dec (nat i))"

section \<open>The controller (\<open>controllers/weatherController.ts\<close>)\<close>

definition lift :: "('a \<Rightarrow> payload) \<Rightarrow> 'a result \<times> world \<Rightarrow> payload result \<times> world" where
  "lift f rw = (case rw of (Inl e, w) \<Rightarrow> (Inl e, w) | (Inr x, w) \<Rightarrow> (Inr (f x), w))"

text \<open>
  The body of the \<open>try\<close> block that the five caching handlers share: read the cache and
  answer with the entry if there is one (\<open>if (cached) return res.json(cached)\<close>; a payload is
  an object or an array, hence truthy); otherwise call the service, store its result under
  the same key, and answer with it.  Each \<open>await\<close> that rejects leaves the block.
\<close>

definition cache_aside ::
  "world \<Rightarrow> string \<Rightarrow> nat \<Rightarrow> (world \<Rightarrow> payload result \<times> world) \<Rightarrow> payload result \<times> world" where
  "cache_aside w cacheKey ttl fetch =
     (case cache_get w cacheKey of
        (Inl e, w1) \<Rightarrow> (Inl e, w1)
      | (Inr (Some cached), w1) \<Rightarrow> (Inr cached, w1)
      | (Inr None, w1) \<Rightarrow>
          (case fetch w1 of
             (Inl e, w2) \<Rightarrow> (Inl e, w2)
           | (Inr v, w2) \<Rightarrow>
               (case cache_set w2 cacheKey v ttl of
                  (Inl e, w3) \<Rightarrow> (Inl e, w3)
                | (Inr u, w3) \<Rightarrow> (Inr v, w3))))"

definition getCurrentWeather :: "jsrt \<Rightarrow> world \<Rightarrow> string \<Rightarrow> payload result \<times> world" where
  "getCurrentWeather rt w loc =
     catch_500 ''getCurrentWeather error:'' ''Failed to fetch weather data''
       (cache_aside w (''weather:current:'' @ loc) 600
          (\<lambda>w. lift PWeather (svc_getCurrentWeather rt w loc)))"

definition getCurrentWeatherByCoords ::
  "jsrt \<Rightarrow> world \<Rightarrow> string \<Rightarrow> string \<Rightarrow> payload result \<times> world" where
  "getCurrentWeatherByCoords rt w lat lon =
     (let latitude = js_parseFloat rt lat;
          longitude = js_parseFloat rt lon
      in catch_500 ''getCurrentWeatherByCoords error:'' ''Failed to fetch weather data''
           (cache_aside w
              (''weather:coords:'' @ js_numstr rt latitude @ '':'' @ js_numstr rt longitude) 600
              (\<lambda>w. lift PWeather (svc_getCurrentWeatherByCoords rt w latitude longitude))))"

definition getForecast :: "jsrt \<Rightarrow> world \<Rightarrow> string \<Rightarrow> payload result \<times> world" where
  "getForecast rt w loc =
     catch_500 ''getForecast error:'' ''Failed to fetch forecast data''
       (cache_aside w (''forecast:'' @ loc) 1800
          (\<lambda>w. lift PForecast (svc_getForecast rt w loc)))"

definition getForecastByCoords ::
  "jsrt \<Rightarrow> world \<Rightarrow> string \<Rightarrow> string \<Rightarrow> payload result \<times> world" where
  "getForecastByCoords rt w lat lon =
     (let latitude = js_parseFloat rt lat;
          longitude = js_parseFloat rt lon
      in catch_500 ''getForecastByCoords error:'' ''Failed to fetch forecast data''
           (cache_aside w
              (''forecast:coords:'' @ js_numstr rt latitude @ '':'' @ js_numstr rt longitude) 1800
              (\<lambda>w. lift PForecast (svc_getForecastByCoords rt w latitude longitude))))"

text \<open>
  \<open>parseInt(req.query.days as string) || 7\<close>: an absent parameter is \<open>undefined\<close>, which
  \<open>parseInt\<close> reads as the string \<open>undefined\<close>; \<open>NaN\<close> and 0 are falsy.
\<close>

definition days_of :: "string option \<Rightarrow> int" where
  "days_of q =
     (case parseInt (case q of None \<Rightarrow> ''undefined'' | Some s \<Rightarrow> s) of
        None \<Rightarrow> 7
      | Some n \<Rightarrow> if n = 0 then 7 else n)"

definition getHistoricalWeather :: "world \<Rightarrow> string \<Rightarrow> string option \<Rightarrow> payload result \<times> world" where
  "getHistoricalWeather w loc q =
     (let days = days_of q
      in catch_500 ''getHistoricalWeather error:'' ''Failed to fetch historical weather data''
           (cache_aside w (''history:'' @ loc @ '':'' @ show_int days) 3600
              (\<lambda>w. lift PHistory (svc_getHistoricalWeather w loc days))))"

definition getWeatherAlerts :: "world \<Rightarrow> string \<Rightarrow> payload result \<times> world" where
  "getWeatherAlerts w loc =
     catch_500 ''getWeatherAlerts error:'' ''Failed to fetch weather alerts''
       (lift PAlerts (svc_getWeatherAlerts w loc))"

section \<open>Routes and requests (\<open>routes/weatherRoutes.ts\<close>)\<close>

text \<open>
  Modelled from the spec: the middleware \<open>validate\<close> of \<open>middleware/validation\<close> is not
  among the sources.  It stands after the checks of a route and, when one of them failed,
  rejects the request with a validation failure, so that the handler is not run.
\<close>

definition validate :: "bool list \<Rightarrow> bool" where
  "validate checks \<longleftrightarrow> list_all (\<lambda>ok. ok) checks"

text \<open>
  \<open>/current/coords/:lat/:lon\<close> and \<open>/forecast/coords/:lat/:lon\<close>: both parameters are checked
  with \<open>isFloat()\<close>, called without bounds.
\<close>

definition route_current_coords ::
  "jsrt \<Rightarrow> world \<Rightarrow> string \<Rightarrow> string \<Rightarrow> payload result \<times> world" where
  "route_current_coords rt w lat lon =
     (if validate [js_isFloat rt lat, js_isFloat rt lon]
      then getCurrentWeatherByCoords rt w lat lon
      else (Inl ValidationError, w))"

definition route_forecast_coords ::
  "jsrt \<Rightarrow> world \<Rightarrow> string \<Rightarrow> string \<Rightarrow> payload result \<times> world" where
  "route_forecast_coords rt w lat lon =
     (if validate [js_isFloat rt lat, js_isFloat rt lon]
      then getForecastByCoords rt w lat lon
      else (Inl ValidationError, w))"

text \<open>The six kinds of request, with the raw path and query parameters.\<close>

datatype request =
    CurrentReq string
  | CurrentCoordsReq string string
  | ForecastReq string
  | ForecastCoordsReq string string
  | HistoryReq string "string option"
  | AlertsReq string

fun handle :: "jsrt \<Rightarrow> world \<Rightarrow> request \<Rightarrow> payload result \<times> world" where
  "handle rt w (CurrentReq loc) = getCurrentWeather rt w loc"
| "handle rt w (CurrentCoordsReq lat lon) = getCurrentWeatherByCoords rt w lat lon"
| "handle rt w (ForecastReq loc) = getForecast rt w loc"
| "handle rt w (ForecastCoordsReq lat lon) = getForecastByCoords rt w lat lon"
| "handle rt w (HistoryReq loc q) = getHistoricalWeather w loc q"
| "handle rt w (AlertsReq loc) = getWeatherAlerts w loc"

text \<open>
  What each handler uses, read off the source: its cache key (none for alerts), its TTL in
  seconds, the service method it awaits, the line it logs and the message of the
  \<open>ApiError\<close> it throws in its \<open>catch\<close> block.
\<close>

fun cacheKey :: "jsrt \<Rightarrow> request \<Rightarrow> string option" where
  "cacheKey rt (CurrentReq loc) = Some (''weather:current:'' @ loc)"
| "cacheKey rt (CurrentCoordsReq lat lon) =
     Some (''weather:coords:'' @ js_numstr rt (js_parseFloat rt lat) @ '':'' @
           js_numstr rt (js_parseFloat rt lon))"
| "cacheKey rt (ForecastReq loc) = Some (''forecast:'' @ loc)"
| "cacheKey rt (ForecastCoordsReq lat lon) =
     Some (''forecast:coords:'' @ js_numstr rt (js_parseFloat rt lat) @ '':'' @
           js_numstr rt (js_parseFloat rt lon))"
| "cacheKey rt (HistoryReq loc q) = Some (''history:'' @ loc @ '':'' @ show_int (days_of q))"
| "cacheKey rt (AlertsReq loc) = None"

fun ttl_of :: "request \<Rightarrow> nat" where
  "ttl_of (CurrentReq loc) = 600"
| "ttl_of (CurrentCoordsReq lat lon) = 600"
| "ttl_of (ForecastReq loc) = 1800"
| "ttl_of (ForecastCoordsReq lat lon) = 1800"
| "ttl_of (HistoryReq loc q) = 3600"
| "ttl_of (AlertsReq loc) = 0"

fun service :: "jsrt \<Rightarrow> request \<Rightarrow> world \<Rightarrow> payload result \<times> world" where
  "service rt (CurrentReq loc) w = lift PWeather (svc_getCurrentWeather rt w loc)"
| "service rt (CurrentCoordsReq lat lon) w =
     lift PWeather (svc_getCurrentWeatherByCoords rt w (js_parseFloat rt lat) (js_parseFloat rt lon))"
| "service rt (ForecastReq loc) w = lift PForecast (svc_getForecast rt w loc)"
| "service rt (ForecastCoordsReq lat lon) w =
     lift PForecast (svc_getForecastByCoords rt w (js_parseFloat rt lat) (js_parseFloat rt lon))"
| "service rt (HistoryReq loc q) w = lift PHistory (svc_getHistoricalWeather w loc (days_of q))"
| "service rt (AlertsReq loc) w = lift PAlerts (svc_getWeatherAlerts w loc)"

fun log_of :: "request \<Rightarrow> string" where
  "log_of (CurrentReq loc) = ''getCurrentWeather error:''"
| "log_of (CurrentCoordsReq lat lon) = ''getCurrentWeatherByCoords error:''"
| "log_of (ForecastReq loc) = ''getForecast error:''"
| "log_of (ForecastCoordsReq lat lon) = ''getForecastByCoords error:''"
| "log_of (HistoryReq loc q) = ''getHistoricalWeather error:''"
| "log_of (AlertsReq loc) = ''getWeatherAlerts error:''"

fun message_of :: "request \<Rightarrow> string" where
  "message_of (CurrentReq loc) = ''Failed to fetch weather data''"
| "message_of (CurrentCoordsReq lat lon) = ''Failed to fetch weather data''"
| "message_of (ForecastReq loc) = ''Failed to fetch forecast data''"
| "message_of (ForecastCoordsReq lat lon) = ''Failed to fetch forecast data''"
| "message_of (HistoryReq loc q) = ''Failed to fetch historical weather data''"
| "message_of (AlertsReq loc) = ''Failed to fetch weather alerts''"



text \<open>The normalization that the service applies to the body of a reply.\<close>

fun normalized :: "jsrt \<Rightarrow> request \<Rightarrow> world \<Rightarrow> jsval \<Rightarrow> payload result" where
  "normalized rt (ForecastReq loc) w d = map_sum id PForecast (transformForecastData rt d)"
| "normalized rt (ForecastCoordsReq lat lon) w d = map_sum id PForecast (transformForecastData rt d)"
| "normalized rt r w d = map_sum id PWeather (fst (transformWeatherData rt w d))"

text \<open>
  The coordinates that the spec calls valid: finite, the latitude between -90 and 90 and the
  longitude between -180 and 180.  No function of the source computes this.
\<close>

definition in_range :: "jsnum \<Rightarrow> jsnum \<Rightarrow> bool" where
  "in_range lat lon \<longleftrightarrow>
     (case lat of Finite x \<Rightarrow> - 90 \<le> x \<and> x \<le> 90 | _ \<Rightarrow> False) \<and>
     (case lon of Finite y \<Rightarrow> - 180 \<le> y \<and> y \<le> 180 | _ \<Rightarrow> False)"




section \<open>Observations on a run\<close>

fun is_upstream :: "event \<Rightarrow> bool" where
  "is_upstream (SvcCall m) = True"
| "is_upstream (HttpGet url ps) = True"
| "is_upstream ev = False"

fun is_write :: "event \<Rightarrow> bool" where
  "is_write (CacheSet k p ttl) = True"
| "is_write ev = False"

fun is_cache :: "event \<Rightarrow> bool" where
  "is_cache (CacheSet k p ttl) = True"
| "is_cache (CacheGet k) = True"
| "is_cache ev = False"

definition upstream_calls :: "world \<Rightarrow> event list" where
  "upstream_calls w = filter is_upstream (trace w)"

definition cache_writes :: "world \<Rightarrow> event list" where
  "cache_writes w = filter is_write (trace w)"

definition cache_ops :: "world \<Rightarrow> event list" where
  "cache_ops w = filter is_cache (trace w)"

section \<open>Concrete inputs\<close>

text \<open>
  A runtime for the examples.  It agrees with Node.js and with the validator library on
  strings made of an optional sign and up to 15 decimal digits, on the finite numbers that
  occur in the replies below, and on ASCII letters; it is applied to nothing else.
\<close>

definition int_literal :: "string \<Rightarrow> bool" where
  "int_literal s \<longleftrightarrow>
     (let t = (if take 1 s = ''-'' \<or> take 1 s = ''+'' then drop 1 s else s)
      in t \<noteq> [] \<and> list_all (\<lambda>c. digit_val 10 c \<noteq> None) t)"

fun mul_fin :: "jsval \<Rightarrow> jsval \<Rightarrow> jsval" where
  "mul_fin (JNum (Finite x)) (JNum (Finite y)) = JNum (Finite (fl (x * y)))"
| "mul_fin u v = JNum NaN"

fun div_fin :: "jsval \<Rightarrow> jsval \<Rightarrow> jsval" where
  "div_fin (JNum (Finite x)) (JNum (Finite y)) =
     (if y = 0 then JNum NaN else JNum (Finite (fl (x / y))))"
| "div_fin u v = JNum NaN"

definition lower_ascii :: "char \<Rightarrow> char" where
  "lower_ascii c =
     (case map_of (zip ''ABCDEFGHIJKLMNOPQRSTUVWXYZ'' ''abcdefghijklmnopqrstuvwxyz'') c of
        None \<Rightarrow> c
      | Some l \<Rightarrow> l)"

fun numstr_int :: "jsnum \<Rightarrow> string" where
  "numstr_int (Finite q) = show_int \<lfloor>q\<rfloor>"
| "numstr_int NaN = ''NaN''"
| "numstr_int PosInf = ''Infinity''"
| "numstr_int NegInf = ''-Infinity''"

definition parse_int_literal :: "string \<Rightarrow> jsnum" where
  "parse_int_literal s =
     (if int_literal s
      then (case parseInt s of None \<Rightarrow> NaN | Some n \<Rightarrow> Finite (of_int n))
      else NaN)"

definition rt_int :: jsrt where
  "rt_int =
     \<lparr>js_mul = mul_fin, js_div = div_fin, js_lower = map lower_ascii,
      js_parseFloat = parse_int_literal, js_numstr = numstr_int, js_isFloat = int_literal\<rparr>"

text \<open>A reply of the provider to a current-weather request, and the same reply without its \<open>name\<close>.\<close>

definition reply_rest :: "(string \<times> jsval) list" where
  "reply_rest =
     [(''coord'', JObj [(''lon'', JNum (Finite 74)), (''lat'', JNum (Finite 31))]),
      (''weather'',
       JArr [JObj [(''main'', JStr ''Clear''), (''description'', JStr ''clear sky''),
                   (''icon'', JStr ''01d'')]]),
      (''main'',
       JObj [(''temp'', JNum (Finite 30)), (''feels_like'', JNum (Finite 32)),
             (''pressure'', JNum (Finite 1008)), (''humidity'', JNum (Finite 40))]),
      (''visibility'', JNum (Finite 10000)),
      (''wind'', JObj [(''speed'', JNum (Finite 5)), (''deg'', JNum (Finite 180))]),
      (''sys'', JObj [(''country'', JStr ''PK'')])]"

definition lahore_reply :: jsval where
  "lahore_reply = JObj ((''name'', JStr ''Lahore'') # reply_rest)"

definition nameless_reply :: jsval where
  "nameless_reply = JObj reply_rest"

text \<open>A reply that has a name and nothing else.\<close>

definition broken_reply :: jsval where
  "broken_reply = JObj [(''name'', JStr ''Broken'')]"

text \<open>
  A provider that does not know Atlantis, answers without a name for Nowhere, with a name only
  for Broken, and answers every other request with the reply above.
\<close>

definition upstream0 :: "string \<Rightarrow> (string \<times> jsval) list \<Rightarrow> http_result" where
  "upstream0 url ps =
     (if map_of ps ''q'' = Some (JStr ''Atlantis'') then HttpFail (Some 404)
      else if map_of ps ''q'' = Some (JStr ''Nowhere'') then HttpOk nameless_reply
      else if map_of ps ''q'' = Some (JStr ''Broken'') then HttpOk broken_reply
      else HttpOk lahore_reply)"

text \<open>
  A world with an empty, healthy cache; the random source returns 0 and the clock advances
  by one millisecond from reading to reading.
\<close>

definition world0 :: world where
  "world0 =
     \<lparr>entries = (\<lambda>k. None), cache_time = 0, read_fault = False, write_fault = False,
      apiKey = ''key'', upstream = upstream0, rand = (\<lambda>n. 0), rpos = 0,
      clock = (\<lambda>n. int n), cpos = 0, trace = []\<rparr>"

text \<open>The same world with one unexpired forecast in the cache.\<close>

definition world_hit :: world where
  "world_hit =
     world0\<lparr>entries := [''forecast:Lahore'' \<mapsto> (PForecast [], 0, 1800)], cache_time := 100\<rparr>"


text \<open>The same world with a cache backend that faults on reads, and one that faults on writes.\<close>

definition world_rfault :: world where
  "world_rfault = world0\<lparr>read_fault := True\<rparr>"

definition world_wfault :: world where
  "world_wfault = world0\<lparr>write_fault := True\<rparr>"


definition world_alert :: world where
  "world_alert = world0\<lparr>rand := (\<lambda>n. 7 / 8)\<rparr>"

definition world_half :: world where
  "world_half = world0\<lparr>rand := (\<lambda>n. 1 / 2)\<rparr>"

definition world_later :: world where
  "world_later = world0\<lparr>clock := (\<lambda>n. 5)\<rparr>"

text \<open>The normalized form of the reply above, with the draw 0 and the clock reading 0.\<close>

definition lahore_weather :: WeatherData where
  "lahore_weather =
     \<lparr>location = JStr ''Lahore'', country = JStr ''PK'', temperature = JNum (Finite 30),
      feelsLike = JNum (Finite 32), humidity = JNum (Finite 40), pressure = JNum (Finite 1008),
      windSpeed = JNum (Finite (fl (5 * fl (18 / 5)))), windDirection = JNum (Finite 180),
      visibility = JNum (Finite (fl (10000 / 1000))), uvIndex = 0, condition = JStr ''clear'',
      description = JStr ''clear sky'', icon = JStr ''01d'', timestamp = 0,
      coordinates = (JNum (Finite 31), JNum (Finite 74))\<rparr>"

section \<open>What a service call leaves alone\<close>

text \<open>
  \<open>frame w w'\<close>: from \<open>w\<close> to \<open>w'\<close> the cache store, its faults, the provider and the API key
  are the same, and the events added to the trace are no cache operations.
\<close>

definition frame :: "world \<Rightarrow> world \<Rightarrow> bool" where
  "frame w w' \<longleftrightarrow>
     entries w' = entries w \<and> cache_time w' = cache_time w \<and>
     read_fault w' = read_fault w \<and> write_fault w' = write_fault w \<and>
     upstream w' = upstream w \<and> apiKey w' = apiKey w \<and>
     (\<exists>es. trace w' = es @ trace w \<and> \<not> list_ex is_cache es)"


section \<open>Rounding to a double\<close>

lemma fl_0 [simp]: "fl 0 = 0"
  by (simp add: fl_def)

lemma quotient_of_pos:
  assumes "0 < x" and "quotient_of x = (a, b)"
  shows "0 < a" and "0 < b" and "x = of_int a / of_int b"
proof -
  from assms(2) show b: "0 < b" by (rule quotient_of_denom_pos)
  from assms(2) show x: "x = of_int a / of_int b"
    by (metis quotient_of_div)
  from assms(1) x b show "0 < a"
    by (simp add: zero_less_divide_iff)
qed

lemma bitlen_rat:
  assumes "0 < a"
  shows "power_int 2 (bitlen a - 1) \<le> (of_int a :: rat)" and "(of_int a :: rat) < power_int 2 (bitlen a)"
proof -
  from bitlen_bounds [OF assms] have b: "2 ^ nat (bitlen a - 1) \<le> a" "a < 2 ^ nat (bitlen a)"
    by auto
  from assms have p: "1 \<le> bitlen a" by (auto simp: bitlen_alt_def)
  from b(1) have "(of_int (2 ^ nat (bitlen a - 1)) :: rat) \<le> of_int a"
    by (subst of_int_le_iff)
  then show "power_int 2 (bitlen a - 1) \<le> (of_int a :: rat)"
    using p by (simp add: power_int_def)
  from b(2) have "(of_int a :: rat) < of_int (2 ^ nat (bitlen a))"
    by (subst of_int_less_iff)
  then show "(of_int a :: rat) < power_int 2 (bitlen a)"
    using p by (simp add: power_int_def)
qed

lemma expo_bounds:
  assumes "0 < x"
  shows "power_int 2 (expo x) \<le> x" and "x < power_int 2 (expo x + 1)"
proof -
  obtain a b where q: "quotient_of x = (a, b)" by (cases "quotient_of x")
  note ab = quotient_of_pos [OF assms q]
  let ?e0 = "bitlen a - bitlen b"
  have e: "expo x = (if power_int 2 ?e0 \<le> x then ?e0 else ?e0 - 1)"
    by (simp add: expo_def q)
  note la = bitlen_rat [OF ab(1)]
  note lb = bitlen_rat [OF ab(2)]
  have bpos: "(0::rat) < of_int b" using ab(2) by simp
  have lo: "power_int 2 (?e0 - 1) \<le> x"
  proof -
    have "power_int 2 (?e0 - 1) * (of_int b :: rat) \<le> power_int 2 (?e0 - 1) * power_int 2 (bitlen b)"
      using lb(2) by (intro mult_left_mono) simp_all
    also have "\<dots> = power_int 2 (bitlen a - 1)"
      by (simp flip: power_int_add)
    also have "\<dots> \<le> of_int a" by (rule la(1))
    finally show ?thesis using bpos by (simp add: ab(3) pos_le_divide_eq)
  qed
  have hi: "x < power_int 2 (?e0 + 1)"
  proof -
    have "(of_int a :: rat) < power_int 2 (bitlen a)" by (rule la(2))
    also have "\<dots> = power_int 2 (?e0 + 1) * power_int 2 (bitlen b - 1)"
      by (simp flip: power_int_add)
    also have "\<dots> \<le> power_int 2 (?e0 + 1) * of_int b"
      using lb(1) by (intro mult_left_mono) simp_all
    finally show ?thesis using bpos by (simp add: ab(3) pos_divide_less_eq)
  qed
  show "power_int 2 (expo x) \<le> x" using lo by (simp add: e)
  show "x < power_int 2 (expo x + 1)" using hi by (auto simp: e not_le)
qed

lemma expo_unique:
  assumes "power_int 2 e \<le> x" and "x < power_int 2 (e + 1)"
  shows "expo x = e"
proof -
  have "(0::rat) < power_int 2 e" by simp
  with assms(1) have pos: "0 < x" by linarith
  note b = expo_bounds [OF pos]
  have "power_int (2::rat) e < power_int 2 (expo x + 1)" using assms(1) b(2) by linarith
  then have 1: "e < expo x + 1"
    by (metis linorder_not_less power_int_increasing one_le_numeral)
  have "power_int (2::rat) (expo x) < power_int 2 (e + 1)" using assms(2) b(1) by linarith
  then have 2: "expo x < e + 1"
    by (metis linorder_not_less power_int_increasing one_le_numeral)
  from 1 2 show ?thesis by simp
qed

lemma rne_near: "of_int (rne q) \<le> q + 1 / 2" "q - 1 / 2 \<le> of_int (rne q)"
proof -
  let ?n = "\<lfloor>q\<rfloor>"
  have f: "of_int ?n \<le> q" "q < of_int ?n + 1" by linarith+
  consider "q - of_int ?n < 1 / 2" | "1 / 2 < q - of_int ?n" | "q - of_int ?n = 1 / 2"
    by linarith
  then have "of_int (rne q) \<le> q + 1 / 2 \<and> q - 1 / 2 \<le> of_int (rne q)"
  proof cases
    case 1
    then have "rne q = ?n" by (simp add: rne_def Let_def)
    then show ?thesis using f 1 by (simp only: of_int_add of_int_1) linarith
  next
    case 2
    then have "rne q = ?n + 1" by (simp add: rne_def Let_def)
    then show ?thesis using f 2 by (simp only: of_int_add of_int_1) linarith
  next
    case 3
    then have "rne q = ?n \<or> rne q = ?n + 1" by (simp add: rne_def Let_def)
    then show ?thesis
    proof
      assume "rne q = ?n"
      then show ?thesis using f 3 by (simp only: of_int_add of_int_1) linarith
    next
      assume "rne q = ?n + 1"
      then show ?thesis using f 3 by (simp only: of_int_add of_int_1) linarith
    qed
  qed
  then show "of_int (rne q) \<le> q + 1 / 2" "q - 1 / 2 \<le> of_int (rne q)" by simp_all
qed

lemma rne_le: "q \<le> of_int m \<Longrightarrow> rne q \<le> m"
proof -
  assume a: "q \<le> of_int m"
  show ?thesis
  proof (cases "q = of_int m")
    case True
    then show ?thesis by (simp add: rne_def)
  next
    case False
    with a have "q < of_int m" by simp
    then have "\<lfloor>q\<rfloor> < m" by (simp add: floor_less_iff)
    then show ?thesis by (auto simp: rne_def Let_def)
  qed
qed

lemma rne_ge: "of_int m \<le> q \<Longrightarrow> m \<le> rne q"
proof -
  assume "of_int m \<le> q"
  then have "m \<le> \<lfloor>q\<rfloor>" by (simp add: le_floor_iff)
  then show ?thesis by (auto simp: rne_def Let_def)
qed


lemma ulp_pos: "0 < ulp x"
  by (simp add: ulp_def)

lemma fl_pos: "0 < x \<Longrightarrow> fl x = of_int (rne (x / ulp x)) * ulp x"
  by (simp add: fl_def)

lemma fl_le_mult:
  assumes "0 < x" and "x \<le> of_int m * ulp x"
  shows "fl x \<le> of_int m * ulp x"
proof -
  from assms(2) ulp_pos [of x] have "x / ulp x \<le> of_int m"
    by (simp add: pos_divide_le_eq)
  then have "rne (x / ulp x) \<le> m" by (rule rne_le)
  then have "(of_int (rne (x / ulp x)) :: rat) \<le> of_int m" by simp
  with ulp_pos [of x] show ?thesis
    by (simp add: fl_pos [OF assms(1)])
qed

lemma fl_ge_mult:
  assumes "0 < x" and "of_int m * ulp x \<le> x"
  shows "of_int m * ulp x \<le> fl x"
proof -
  from assms(2) ulp_pos [of x] have "of_int m \<le> x / ulp x"
    by (simp add: pos_le_divide_eq)
  then have "m \<le> rne (x / ulp x)" by (rule rne_ge)
  then have "(of_int m :: rat) \<le> of_int (rne (x / ulp x))" by simp
  with ulp_pos [of x] show ?thesis
    by (simp add: fl_pos [OF assms(1)])
qed

lemma ulp_small:
  assumes "0 < x" and "x < 2 ^ 53"
  shows "\<exists>k. ulp x = 1 / 2 ^ k"
proof -
  have "power_int (2::rat) (expo x) < power_int 2 53"
    using expo_bounds(1) [OF assms(1)] assms(2) by simp
  then have "expo x < 53"
    by (metis linorder_not_less power_int_increasing one_le_numeral)
  then have "max (expo x) (- 1022) - 52 \<le> 0" by simp
  then have "ulp x = 1 / 2 ^ nat (- (max (expo x) (- 1022) - 52))"
    unfolding ulp_def by (simp add: power_int_def field_simps)
  then show ?thesis by blast
qed

lemma int_mult_ulp:
  assumes "0 < x" and "x < 2 ^ 53"
  shows "\<exists>m. (of_int c :: rat) = of_int m * ulp x"
proof -
  from ulp_small [OF assms] obtain k where k: "ulp x = 1 / 2 ^ k" by blast
  have "(of_int c :: rat) = of_int (c * 2 ^ k) * ulp x" by (simp add: k)
  then show ?thesis by blast
qed

lemma fl_le_int:
  assumes "0 \<le> x" and "x \<le> of_int c" and "(of_int c :: rat) < 2 ^ 53"
  shows "fl x \<le> of_int c"
proof (cases "x = 0")
  case True
  with assms show ?thesis by simp
next
  case False
  with assms(1) have pos: "0 < x" by simp
  from assms(2,3) have lt: "x < 2 ^ 53" by simp
  from int_mult_ulp [OF pos lt, of c] obtain m where m: "(of_int c :: rat) = of_int m * ulp x"
    by blast
  from fl_le_mult [OF pos, of m] assms(2) m show ?thesis by simp
qed

lemma fl_ge_int:
  assumes "of_int c \<le> x" and "0 \<le> c" and "x < 2 ^ 53"
  shows "of_int c \<le> fl x"
proof (cases "x = 0")
  case True
  with assms show ?thesis by simp
next
  case False
  moreover from assms(2) have "(0::rat) \<le> of_int c" by simp
  ultimately have pos: "0 < x" using assms(1) by linarith
  from int_mult_ulp [OF pos assms(3), of c] obtain m where m: "(of_int c :: rat) = of_int m * ulp x"
    by blast
  from fl_ge_mult [OF pos, of m] assms(1) m show ?thesis by simp
qed

lemma fl_less:
  assumes "power_int 2 e \<le> x" and "x < power_int 2 (e + 1)" and "- 1022 \<le> e"
    and "x + power_int 2 (e - 53) < c"
  shows "fl x < c"
proof -
  have "(0::rat) < power_int 2 e" by simp
  with assms(1) have pos: "0 < x" by linarith
  have e: "expo x = e" using assms(1,2) by (rule expo_unique)
  have u: "ulp x = power_int 2 (e - 52)" using assms(3) by (simp add: ulp_def e max_def)
  have h: "ulp x / 2 = power_int 2 (e - 53)"
    by (simp add: u power_int_diff)
  have "fl x \<le> (x / ulp x + 1 / 2) * ulp x"
    using rne_near(1) [of "x / ulp x"] ulp_pos [of x]
    by (simp add: fl_pos [OF pos])
  also have "\<dots> = x + ulp x / 2"
    using ulp_pos [of x] by (simp add: field_simps)
  finally show ?thesis using assms(4) h by simp
qed



lemma draw_le:
  assumes "is_draw r"
  shows "r \<le> 1 - 1 / 2 ^ 53"
proof (cases "r < 1 / 2")
  case True
  have "(1::rat) / 2 ^ 53 \<le> 1 / 2 ^ 1"
    by (intro divide_left_mono power_increasing) simp_all
  with True show ?thesis by simp
next
  case False
  from assms have r: "0 \<le> r" "r < 1" "fl r = r" by (simp_all add: is_draw_def)
  from False have pos: "0 < r" by simp
  have e: "expo r = - 1"
    using False r(2) by (intro expo_unique) (simp_all add: power_int_minus)
  define u :: rat where "u = 1 / 2 ^ 53"
  have u: "ulp r = u"
    by (simp add: ulp_def e u_def power_int_def field_simps)
  have upos: "0 < u" by (simp add: u_def)
  have one: "1 = 2 ^ 53 * u" by (simp add: u_def)
  let ?k = "rne (r / ulp r)"
  from r(3) have k: "r = of_int ?k * u"
    by (simp add: fl_pos [OF pos] u)
  with r(2) one have "of_int ?k * u < 2 ^ 53 * u" by simp
  with upos have "(of_int ?k :: rat) < 2 ^ 53" by (simp only: mult_less_cancel_right_pos)
  then have "(of_int ?k :: rat) < of_int (2 ^ 53)" by (simp only: of_int_power of_int_numeral)
  then have "?k < 2 ^ 53" by (simp only: of_int_less_iff)
  then have "?k \<le> 2 ^ 53 - 1" by linarith
  then have "(of_int ?k :: rat) \<le> of_int (2 ^ 53 - 1)" by (simp only: of_int_le_iff)
  then have "(of_int ?k :: rat) \<le> 2 ^ 53 - 1" by (simp only: of_int_diff of_int_power of_int_numeral of_int_1)
  with upos have "of_int ?k * u \<le> (2 ^ 53 - 1) * u" by (simp only: mult_le_cancel_right_pos)
  also have "\<dots> = 1 - u" by (simp only: left_diff_distrib one [symmetric] mult_1)
  finally have "of_int ?k * u \<le> 1 - u" .
  then have "r \<le> 1 - u" by (subst k)
  then show ?thesis unfolding u_def .
qed

lemma dmul_range:
  assumes "is_draw r" and "0 \<le> c" and "(of_int c :: rat) < 2 ^ 53"
  shows "0 \<le> dmul r (of_int c)" and "dmul r (of_int c) \<le> of_int c"
proof -
  from assms(1) have r: "0 \<le> r" "r < 1" by (simp_all add: is_draw_def)
  from assms(2) have c: "(0::rat) \<le> of_int c" by simp
  from r c have x: "0 \<le> r * of_int c" "r * of_int c \<le> of_int c"
    by (simp_all add: mult_left_le_one_le)
  from x(2) assms(3) have lt: "r * of_int c < 2 ^ 53" by simp
  from fl_ge_int [of 0 "r * of_int c"] x(1) lt show "0 \<le> dmul r (of_int c)"
    by (simp add: dmul_def)
  from fl_le_int [OF x(1) x(2) assms(3)] show "dmul r (of_int c) \<le> of_int c"
    by (simp add: dmul_def)
qed



lemma dmul_strict:
  fixes c :: int and n :: nat
  assumes "is_draw r" and "2 ^ n < c" and "c < 2 ^ (n + 1)" and "n < 52"
  shows "dmul r (of_int c) < of_int c"
proof -
  from assms(1) have r: "0 \<le> r" "r < 1" by (simp_all add: is_draw_def)
  from assms(2) have lo: "(2 ^ n :: rat) < of_int c"
    by (metis of_int_less_iff of_int_numeral of_int_power)
  from assms(3) have hi: "(of_int c :: rat) < 2 ^ (n + 1)"
    by (metis of_int_less_iff of_int_numeral of_int_power)
  have cpos: "(0::rat) < of_int c" using lo by (meson less_trans zero_less_numeral zero_less_power)
  have n53: "(2 ^ n :: rat) < 2 ^ 53" using assms(4) by (intro power_strict_increasing) simp_all
  let ?x = "r * of_int c"
  have x0: "0 \<le> ?x" using r(1) cpos by simp
  show ?thesis
  proof (cases "?x < 2 ^ n")
    case True
    have "(of_int (2 ^ n) :: rat) < 2 ^ 53" using n53 by simp
    from fl_le_int [of ?x "2 ^ n", OF x0 _ this] True
    have "fl ?x \<le> 2 ^ n" by simp
    with lo show ?thesis unfolding dmul_def by linarith
  next
    case False
    have le: "?x \<le> of_int c - of_int c / 2 ^ 53"
    proof -
      have "?x \<le> (1 - 1 / 2 ^ 53) * of_int c"
        using draw_le [OF assms(1)] cpos by (intro mult_right_mono) simp_all
      then show ?thesis by (simp add: algebra_simps)
    qed
    have "(2 ^ n :: rat) / 2 ^ 53 < of_int c / 2 ^ 53"
      using lo by (simp add: divide_strict_right_mono)
    with le have gap: "?x + 2 ^ n / 2 ^ 53 < of_int c" by linarith
    have "(0::rat) \<le> 2 ^ n / 2 ^ 53" by simp
    with gap have xc: "?x < of_int c" by linarith
    have "fl ?x < of_int c"
    proof (rule fl_less [where e = "int n"])
      show "power_int 2 (int n) \<le> ?x" using False by simp
      show "?x < power_int 2 (int n + 1)"
        using xc hi by (simp add: power_int_add)
      show "- 1022 \<le> int n" by simp
      show "?x + power_int 2 (int n - 53) < of_int c"
        using gap by (simp add: power_int_diff)
    qed
    then show ?thesis by (simp add: dmul_def)
  qed
qed



lemma uv_range:
  assumes "is_draw r"
  shows "0 \<le> \<lfloor>dmul r 11\<rfloor>" and "\<lfloor>dmul r 11\<rfloor> \<le> 10"
proof -
  from dmul_range(1) [OF assms, of 11] show "0 \<le> \<lfloor>dmul r 11\<rfloor>" by simp
  from dmul_strict [OF assms, of 3 11] have "\<lfloor>dmul r 11\<rfloor> < 11" by (simp add: floor_less_iff)
  then show "\<lfloor>dmul r 11\<rfloor> \<le> 10" by simp
qed


section \<open>Frame lemmas\<close>


lemma frame_refl: "frame w w"
  by (simp add: frame_def)

lemma frame_trans: "frame w w1 \<Longrightarrow> frame w1 w2 \<Longrightarrow> frame w w2"
  by (auto simp: frame_def)

lemma frame_emit: "\<not> is_cache ev \<Longrightarrow> frame w (emit ev w)"
  by (simp add: frame_def emit_def)

lemma frame_emit2: "frame w w1 \<Longrightarrow> \<not> is_cache ev \<Longrightarrow> frame w (emit ev w1)"
  by (auto simp: frame_def emit_def)

lemma frame_random: "random w = (r, w') \<Longrightarrow> frame w w'"
  by (auto simp: frame_def random_def)

lemma frame_now: "now w = (t, w') \<Longrightarrow> frame w w'"
  by (auto simp: frame_def now_def)

lemma frame_axios: "axios_get w url ps = (r, w') \<Longrightarrow> frame w w'"
  by (auto simp: axios_get_def frame_emit split: http_result.splits)

lemma frame_transform: "transformWeatherData rt w d = (r, w') \<Longrightarrow> frame w w'"
  unfolding transformWeatherData_def
  by (auto simp: Let_def split: sum.splits prod.splits
           intro: frame_refl frame_trans [OF frame_random frame_now] frame_random)

lemma frame_catch_404: "frame w (snd rw) \<Longrightarrow> frame w (snd (catch_404 msg rw))"
  by (auto simp: catch_404_def frame_emit2 split: prod.splits sum.splits)

lemma frame_catch_500: "frame w (snd rw) \<Longrightarrow> frame w (snd (catch_500 msg err rw))"
  by (auto simp: catch_500_def frame_emit2 split: prod.splits sum.splits)

lemma frame_lift: "snd (lift f rw) = snd rw"
  by (auto simp: lift_def split: prod.splits sum.splits)

lemma frame_hist_entry: "hist_entry w c i = (x, w') \<Longrightarrow> frame w w'"
  by (auto simp: hist_entry_def frame_def random_def Let_def split: prod.splits)

lemma frame_hist_loop: "hist_loop w c i acc = (xs, w') \<Longrightarrow> frame w w'"
proof (induction w c i acc rule: hist_loop.induct)
  case (1 w c i acc)
  show ?case
  proof (cases "0 < i")
    case True
    obtain x w1 where e: "hist_entry w c i = (x, w1)" by (cases "hist_entry w c i")
    with True "1.prems" have "hist_loop w1 c (i - 1) (acc @ [x]) = (xs, w')"
      by (simp add: hist_loop.simps [of w c i acc])
    with "1.IH" [OF True e [symmetric]] have "frame w1 w'" by simp
    with frame_hist_entry [OF e] show ?thesis by (rule frame_trans)
  next
    case False
    with "1.prems" show ?thesis by (simp add: hist_loop.simps [of w c i acc] frame_refl)
  qed
qed


lemma frame_try_weather:
  "frame w (snd (case axios_get w url ps of
                   (Inl e, w1) \<Rightarrow> (Inl e, w1)
                 | (Inr d, w1) \<Rightarrow> transformWeatherData rt w1 d))"
proof (cases "axios_get w url ps")
  case (Pair r w1)
  then have f: "frame w w1" by (rule frame_axios)
  show ?thesis
  proof (cases r)
    case (Inl e)
    with Pair f show ?thesis by simp
  next
    case (Inr d)
    obtain r2 w2 where t: "transformWeatherData rt w1 d = (r2, w2)"
      by (cases "transformWeatherData rt w1 d")
    from frame_trans [OF f frame_transform [OF t]] Pair Inr t show ?thesis by simp
  qed
qed

lemma frame_try_forecast:
  "frame w (snd (case axios_get w url ps of
                   (Inl e, w1) \<Rightarrow> (Inl e, w1)
                 | (Inr d, w1) \<Rightarrow> (transformForecastData rt d, w1)))"
  by (cases "axios_get w url ps") (auto split: sum.splits dest: frame_axios)

lemma frame_svc_call:
  "frame (emit (SvcCall m) w) w' \<Longrightarrow> frame w w'"
  by (rule frame_trans [OF frame_emit]) simp_all

lemma frame_service: "frame w (snd (service rt req w))"
proof (cases req)
  case (CurrentReq loc)
  show ?thesis
    unfolding CurrentReq service.simps frame_lift svc_getCurrentWeather_def
    by (rule frame_catch_404, rule frame_svc_call, rule frame_try_weather)
next
  case (CurrentCoordsReq lat lon)
  show ?thesis
    unfolding CurrentCoordsReq service.simps frame_lift svc_getCurrentWeatherByCoords_def
    by (rule frame_catch_500, rule frame_svc_call, rule frame_try_weather)
next
  case (ForecastReq loc)
  show ?thesis
    unfolding ForecastReq service.simps frame_lift svc_getForecast_def
    by (rule frame_catch_404, rule frame_svc_call, rule frame_try_forecast)
next
  case (ForecastCoordsReq lat lon)
  show ?thesis
    unfolding ForecastCoordsReq service.simps frame_lift svc_getForecastByCoords_def
    by (rule frame_catch_500, rule frame_svc_call, rule frame_try_forecast)
next
  case (HistoryReq loc q)
  obtain c w1 where n: "now (emit (SvcCall ''getHistoricalWeather'') w) = (c, w1)"
    by (cases "now (emit (SvcCall ''getHistoricalWeather'') w)")
  obtain xs w2 where h: "hist_loop w1 c (days_of q) [] = (xs, w2)"
    by (cases "hist_loop w1 c (days_of q) []")
  have "frame w w2"
    by (rule frame_svc_call, rule frame_trans [OF frame_now [OF n] frame_hist_loop [OF h]])
  with n h show ?thesis
    by (simp add: HistoryReq frame_lift svc_getHistoricalWeather_def)
next
  case (AlertsReq loc)
  obtain r w1 where n: "random (emit (SvcCall ''getWeatherAlerts'') w) = (r, w1)"
    by (cases "random (emit (SvcCall ''getWeatherAlerts'') w)")
  have f1: "frame w w1" by (rule frame_svc_call, rule frame_random [OF n])
  obtain t1 w2 where a: "now w1 = (t1, w2)" by (cases "now w1")
  obtain t2 w3 where b: "now w2 = (t2, w3)" by (cases "now w2")
  have f3: "frame w w3"
    by (rule frame_trans [OF f1], rule frame_trans [OF frame_now [OF a] frame_now [OF b]])
  from n a b f1 f3 show ?thesis
    by (simp add: AlertsReq frame_lift svc_getWeatherAlerts_def)
qed

lemma service_ext:
  "service rt (CurrentReq loc) = (\<lambda>w. lift PWeather (svc_getCurrentWeather rt w loc))"
  "service rt (CurrentCoordsReq lat lon) =
     (\<lambda>w. lift PWeather
            (svc_getCurrentWeatherByCoords rt w (js_parseFloat rt lat) (js_parseFloat rt lon)))"
  "service rt (ForecastReq loc) = (\<lambda>w. lift PForecast (svc_getForecast rt w loc))"
  "service rt (ForecastCoordsReq lat lon) =
     (\<lambda>w. lift PForecast
            (svc_getForecastByCoords rt w (js_parseFloat rt lat) (js_parseFloat rt lon)))"
  "service rt (HistoryReq loc q) = (\<lambda>w. lift PHistory (svc_getHistoricalWeather w loc (days_of q)))"
  by (rule ext, simp)+

lemma handle_cached:
  "cacheKey rt req = Some k \<Longrightarrow>
   handle rt w req =
     catch_500 (log_of req) (message_of req) (cache_aside w k (ttl_of req) (service rt req))"
  by (cases req)
     (auto simp: getCurrentWeather_def getCurrentWeatherByCoords_def getForecast_def
        getForecastByCoords_def getHistoricalWeather_def Let_def service_ext)

lemma emit_fields [simp]:
  "trace (emit ev w) = ev # trace w"
  "entries (emit ev w) = entries w"
  "cache_time (emit ev w) = cache_time w"
  "read_fault (emit ev w) = read_fault w"
  "write_fault (emit ev w) = write_fault w"
  "upstream (emit ev w) = upstream w"
  "apiKey (emit ev w) = apiKey w"
  "rand (emit ev w) = rand w"
  "rpos (emit ev w) = rpos w"
  "clock (emit ev w) = clock w"
  "cpos (emit ev w) = cpos w"
  by (simp_all add: emit_def)

lemma holds_emit [simp]: "holds (emit ev w) k = holds w k"
  by (simp add: holds_def split: option.splits prod.splits)

lemma frame_writes: "frame w w' \<Longrightarrow> cache_writes w' = cache_writes w"
proof -
  assume "frame w w'"
  then obtain es where es: "trace w' = es @ trace w" "\<not> list_ex is_cache es"
    by (auto simp: frame_def)
  have "filter is_write es = []"
  proof (rule filter_False, rule ballI)
    fix ev assume "ev \<in> set es"
    with es(2) have "\<not> is_cache ev" by (auto simp: list_ex_iff)
    then show "\<not> is_write ev" by (cases ev) auto
  qed
  with es(1) show ?thesis by (simp add: cache_writes_def)
qed

lemma cache_aside_hit:
  "\<not> read_fault w \<Longrightarrow> holds w k = Some p \<Longrightarrow>
   cache_aside w k ttl f = (Inr p, emit (CacheGet k) w)"
  by (simp add: cache_aside_def cache_get_def)

lemma cache_aside_read_fault:
  "read_fault w \<Longrightarrow> cache_aside w k ttl f = (Inl CacheFault, emit (CacheGet k) w)"
  by (simp add: cache_aside_def cache_get_def)


lemma cache_aside_miss_ok:
  "\<not> read_fault w \<Longrightarrow> holds w k = None \<Longrightarrow> f (emit (CacheGet k) w) = (Inr v, w2) \<Longrightarrow>
   cache_aside w k ttl f =
     (if write_fault w2 then (Inl CacheFault, emit (CacheSet k v ttl) w2)
      else (Inr v, (emit (CacheSet k v ttl) w2)\<lparr>entries := (entries w2)(k \<mapsto> (v, cache_time w2, ttl))\<rparr>))"
  by (simp add: cache_aside_def cache_get_def cache_set_def)

lemma catch_500_simps [simp]:
  "catch_500 msg err (Inr x, w) = (Inr x, w)"
  "catch_500 msg err (Inl e, w) = (Inl (ApiError 500 err), emit (LogError msg) w)"
  by (simp_all add: catch_500_def)

lemma upstream_calls_emit [simp]:
  "upstream_calls (emit ev w) = (if is_upstream ev then ev # upstream_calls w else upstream_calls w)"
  by (simp add: upstream_calls_def)

lemma cache_writes_emit [simp]:
  "cache_writes (emit ev w) = (if is_write ev then ev # cache_writes w else cache_writes w)"
  by (simp add: cache_writes_def)

lemma cache_ops_emit [simp]:
  "cache_ops (emit ev w) = (if is_cache ev then ev # cache_ops w else cache_ops w)"
  by (simp add: cache_ops_def)

lemma cache_writes_entries_update [simp]:
  "cache_writes (w\<lparr>entries := m\<rparr>) = cache_writes w"
  by (simp add: cache_writes_def)


section \<open>How the service fails\<close>

lemma isl_transform:
  "isl (fst (transformWeatherData rt w d)) \<longleftrightarrow>
     isl (weather_head rt d) \<or> isl (weather_mid rt d) \<or> isl (weather_coord d)"
  by (auto simp: transformWeatherData_def Let_def split: sum.splits prod.splits)

lemma isl_normalized: "isl (normalized rt req w d) = isl (normalized rt req w' d)"
  by (cases req) (simp_all add: isl_map_sum isl_transform)





















section \<open>Runs on the concrete inputs\<close>


lemma lahore_head:
  "weather_head rt_int lahore_reply =
     Inr (JStr ''Lahore'', JStr ''PK'', JNum (Finite 30), JNum (Finite 32), JNum (Finite 40),
          JNum (Finite 1008), JNum (Finite (fl (5 * fl (18 / 5)))), JNum (Finite 180),
          JNum (Finite (fl (10000 / 1000))))"
  by (simp add: weather_head_def lahore_reply_def reply_rest_def prop2_def bindR_def rt_int_def)

lemma lahore_mid:
  "weather_mid rt_int lahore_reply = Inr (JStr ''clear'', JStr ''clear sky'', JStr ''01d'')"
  by (simp add: weather_mid_def weather0_def lahore_reply_def reply_rest_def bindR_def rt_int_def
        lower_ascii_def)

lemma lahore_coord:
  "weather_coord lahore_reply = Inr (JNum (Finite 31), JNum (Finite 74))"
  by (simp add: weather_coord_def lahore_reply_def reply_rest_def prop2_def bindR_def)

lemma lahore_transform:
  "rand w (rpos w) = 0 \<Longrightarrow> clock w (cpos w) = 0 \<Longrightarrow>
   fst (transformWeatherData rt_int w lahore_reply) = Inr lahore_weather"
  by (simp add: transformWeatherData_def lahore_head lahore_mid lahore_coord random_def now_def
        dmul_def lahore_weather_def)

lemma lahore_service:
  assumes "upstream w = upstream0" and "rand w (rpos w) = 0" and "clock w (cpos w) = 0"
  shows "fst (service rt_int (CurrentReq ''Lahore'') w) = Inr (PWeather lahore_weather)"
proof -
  let ?w = "emit (HttpGet (baseUrl @ ''/weather'') (name_params w ''Lahore''))
              (emit (SvcCall ''getCurrentWeather'') w)"
  have a: "axios_get (emit (SvcCall ''getCurrentWeather'') w)
             (baseUrl @ ''/weather'') (name_params w ''Lahore'') =
           (Inr lahore_reply, ?w)"
    using assms(1) by (simp add: axios_get_def upstream0_def name_params_def)
  have t: "fst (transformWeatherData rt_int ?w lahore_reply) = Inr lahore_weather"
    by (rule lahore_transform) (simp_all add: assms)
  obtain w3 where "transformWeatherData rt_int ?w lahore_reply = (Inr lahore_weather, w3)"
    using t by (cases "transformWeatherData rt_int ?w lahore_reply") simp
  then show ?thesis
    by (simp add: svc_getCurrentWeather_def a catch_404_def lift_def)
qed

lemma ninety_five:
  "js_isFloat rt_int ''95''" "js_isFloat rt_int ''0''"
  "js_parseFloat rt_int ''95'' = Finite 95" "js_parseFloat rt_int ''0'' = Finite 0"
  "js_numstr rt_int (Finite 95) = ''95''" "js_numstr rt_int (Finite 0) = ''0''"
  by (simp add: rt_int_def, code_simp)+

lemma coords_run:
  "getCurrentWeatherByCoords rt_int world0 ''95'' ''0'' =
     (Inr (PWeather lahore_weather),
      world0\<lparr>entries := [''weather:coords:95:0'' \<mapsto> (PWeather lahore_weather, 0, 600)],
             rpos := 1, cpos := 1,
             trace := [CacheSet ''weather:coords:95:0'' (PWeather lahore_weather) 600,
                       HttpGet (baseUrl @ ''/weather'') (coord_params world0 (Finite 95) (Finite 0)),
                       SvcCall ''getCurrentWeatherByCoords'',
                       CacheGet ''weather:coords:95:0'']\<rparr>)"
  by (simp add: getCurrentWeatherByCoords_def ninety_five cache_aside_def cache_get_def
        cache_set_def holds_def svc_getCurrentWeatherByCoords_def axios_get_def
        transformWeatherData_def lahore_head lahore_mid lahore_coord random_def now_def
        dmul_def lift_def emit_def world0_def upstream0_def coord_params_def
        lahore_weather_def Let_def)


lemma not_literal: "\<not> js_isFloat rt_int ''north''"
  by (simp add: rt_int_def, code_simp)










lemma zero_draw: "is_draw 0"
  by (simp add: is_draw_def)


lemma half_uv: "\<lfloor>dmul (1 / 2) 11\<rfloor> = 5" "is_draw (1 / 2)"
  by code_simp+

lemma transform_runs:
  "fst (transformWeatherData rt_int world0 lahore_reply) = Inr lahore_weather"
  "fst (transformWeatherData rt_int world_half lahore_reply) = Inr (lahore_weather\<lparr>uvIndex := 5\<rparr>)"
  "fst (transformWeatherData rt_int world_later lahore_reply) = Inr (lahore_weather\<lparr>timestamp := 5\<rparr>)"
  by (simp_all add: transformWeatherData_def lahore_head lahore_mid lahore_coord random_def
        now_def world0_def world_half_def world_later_def half_uv dmul_def [of 0]
        lahore_weather_def)


section \<open>The generated history\<close>










section \<open>Decimal rendering and the key of a run\<close>









section \<open>The alerts handler\<close>

lemma alerts_trace:
  "trace (snd (getWeatherAlerts w loc)) = SvcCall ''getWeatherAlerts'' # trace w \<and>
   entries (snd (getWeatherAlerts w loc)) = entries w \<and>
   \<not> isl (fst (getWeatherAlerts w loc))"
  by (simp add: getWeatherAlerts_def svc_getWeatherAlerts_def random_def now_def lift_def Let_def)

section \<open>The cache hit\<close>

text \<open>
  Claim C1.  For each of the five caching request kinds: when the cache read does not fault
  and the Cache Store holds a present, unexpired entry under the key the handler computes,
  the handler answers with that entry.  The only event of the run is the cache read, so no
  service method is called, no HTTP request is sent, nothing is written to the cache, and
  the store is as it was.
\<close>

theorem cache_hit_returns_entry:
  assumes "cacheKey rt req = Some k" and "\<not> read_fault w" and "holds w k = Some p"
  shows "handle rt w req = (Inr p, emit (CacheGet k) w) \<and>
         upstream_calls (emit (CacheGet k) w) = upstream_calls w \<and>
         cache_writes (emit (CacheGet k) w) = cache_writes w \<and>
         entries (emit (CacheGet k) w) = entries w"
  using assms by (simp add: handle_cached cache_aside_hit)

theorem cache_hit_returns_entry_witness:
  "cacheKey rt_int (ForecastReq ''Lahore'') = Some ''forecast:Lahore'' \<and>
   \<not> read_fault world_hit \<and>
   holds world_hit ''forecast:Lahore'' = Some (PForecast []) \<and>
   handle rt_int world_hit (ForecastReq ''Lahore'') =
     (Inr (PForecast []), emit (CacheGet ''forecast:Lahore'') world_hit)"
proof -
  have k: "cacheKey rt_int (ForecastReq ''Lahore'') = Some ''forecast:Lahore''" by simp
  have r: "\<not> read_fault world_hit" by (simp add: world_hit_def world0_def)
  have h: "holds world_hit ''forecast:Lahore'' = Some (PForecast [])"
    by (simp add: holds_def world_hit_def world0_def)
  from cache_hit_returns_entry [OF k r h] k r h show ?thesis by simp
qed

section \<open>Upstream failure\<close>



section \<open>The cache miss\<close>

text \<open>
  Claim C5.  When the cache misses and the service method succeeds with a payload, the
  handler issues exactly one cache write: the payload, under the key it computed, with the
  TTL of its kind, which is 600 seconds for current weather, 1800 for a forecast and 3600 for
  history.  When the write does not fault the handler answers with the payload and the
  store holds it under that key from the current time on.  The alerts handler never touches
  the cache: a run adds one call of the alerts service and no cache operation, from every
  world, hence also from the world that a previous alerts request left.
\<close>

theorem miss_writes_with_ttl:
  assumes "cacheKey rt req = Some k" and "\<not> read_fault w" and "holds w k = None"
    and "service rt req (emit (CacheGet k) w) = (Inr v, w2)"
  shows "cache_writes (snd (handle rt w req)) = CacheSet k v (ttl_of req) # cache_writes w \<and>
         ttl_of req =
           (case req of
              CurrentReq loc \<Rightarrow> 600 | CurrentCoordsReq lat lon \<Rightarrow> 600
            | ForecastReq loc \<Rightarrow> 1800 | ForecastCoordsReq lat lon \<Rightarrow> 1800
            | HistoryReq loc q \<Rightarrow> 3600 | AlertsReq loc \<Rightarrow> 0) \<and>
         (\<not> write_fault w \<longrightarrow>
            fst (handle rt w req) = Inr v \<and>
            entries (snd (handle rt w req)) = (entries w)(k \<mapsto> (v, cache_time w, ttl_of req))) \<and>
         cache_ops (snd (handle rt w' (AlertsReq loc))) = cache_ops w' \<and>
         entries (snd (handle rt w' (AlertsReq loc))) = entries w' \<and>
         upstream_calls (snd (handle rt w' (AlertsReq loc))) =
           SvcCall ''getWeatherAlerts'' # upstream_calls w' \<and>
         upstream_calls (snd (handle rt (snd (handle rt w' (AlertsReq loc))) (AlertsReq loc))) =
           SvcCall ''getWeatherAlerts'' # SvcCall ''getWeatherAlerts'' # upstream_calls w'"
proof -
  have f: "frame (emit (CacheGet k) w) w2"
    using frame_service [of "emit (CacheGet k) w" rt req] assms(4) by simp
  then have e: "entries w2 = entries w" "cache_time w2 = cache_time w"
    "write_fault w2 = write_fault w"
    by (simp_all add: frame_def)
  from frame_writes [OF f] have cw: "cache_writes w2 = cache_writes w" by simp
  have h: "handle rt w req =
     catch_500 (log_of req) (message_of req)
       (if write_fault w then (Inl CacheFault, emit (CacheSet k v (ttl_of req)) w2)
        else (Inr v, (emit (CacheSet k v (ttl_of req)) w2)
                 \<lparr>entries := (entries w)(k \<mapsto> (v, cache_time w, ttl_of req))\<rparr>))"
    using assms e by (simp add: handle_cached cache_aside_miss_ok)
  have 1: "cache_writes (snd (handle rt w req)) = CacheSet k v (ttl_of req) # cache_writes w"
    by (simp add: h cw)
  have 2: "ttl_of req =
           (case req of
              CurrentReq loc \<Rightarrow> 600 | CurrentCoordsReq lat lon \<Rightarrow> 600
            | ForecastReq loc \<Rightarrow> 1800 | ForecastCoordsReq lat lon \<Rightarrow> 1800
            | HistoryReq loc q \<Rightarrow> 3600 | AlertsReq loc \<Rightarrow> 0)"
    by (cases req) simp_all
  have 3: "\<not> write_fault w \<longrightarrow>
            fst (handle rt w req) = Inr v \<and>
            entries (snd (handle rt w req)) = (entries w)(k \<mapsto> (v, cache_time w, ttl_of req))"
    by (simp add: h)
  have a: "\<And>u. trace (snd (getWeatherAlerts u loc)) = SvcCall ''getWeatherAlerts'' # trace u"
    "\<And>u. entries (snd (getWeatherAlerts u loc)) = entries u"
    using alerts_trace by blast+
  have 4: "cache_ops (snd (handle rt w' (AlertsReq loc))) = cache_ops w'"
    by (simp add: cache_ops_def a)
  have 5: "upstream_calls (snd (handle rt w' (AlertsReq loc))) =
           SvcCall ''getWeatherAlerts'' # upstream_calls w'"
    by (simp add: upstream_calls_def a)
  have 6: "upstream_calls (snd (handle rt (snd (handle rt w' (AlertsReq loc))) (AlertsReq loc))) =
           SvcCall ''getWeatherAlerts'' # SvcCall ''getWeatherAlerts'' # upstream_calls w'"
    by (simp add: upstream_calls_def a)
  have 7: "entries (snd (handle rt w' (AlertsReq loc))) = entries w'"
    by (simp add: a)
  from 1 2 3 4 5 6 7 show ?thesis by blast
qed

theorem miss_writes_with_ttl_witness:
  "cacheKey rt_int (CurrentReq ''Lahore'') = Some ''weather:current:Lahore'' \<and>
   \<not> read_fault world0 \<and> \<not> write_fault world0 \<and>
   holds world0 ''weather:current:Lahore'' = None \<and>
   fst (service rt_int (CurrentReq ''Lahore'') (emit (CacheGet ''weather:current:Lahore'') world0)) =
     Inr (PWeather lahore_weather) \<and>
   cache_writes (snd (handle rt_int world0 (CurrentReq ''Lahore''))) =
     [CacheSet ''weather:current:Lahore'' (PWeather lahore_weather) 600] \<and>
   fst (handle rt_int world0 (CurrentReq ''Lahore'')) = Inr (PWeather lahore_weather) \<and>
   entries (snd (handle rt_int world0 (CurrentReq ''Lahore''))) ''weather:current:Lahore'' =
     Some (PWeather lahore_weather, 0, 600)"
proof -
  let ?k = "''weather:current:Lahore''"
  let ?w1 = "emit (CacheGet ?k) world0"
  let ?req = "CurrentReq ''Lahore''"
  have k: "cacheKey rt_int ?req = Some ?k" by simp
  have r: "\<not> read_fault world0" by (simp add: world0_def)
  have wf: "\<not> write_fault world0" by (simp add: world0_def)
  have h: "holds world0 ?k = None" by (simp add: holds_def world0_def)
  have s: "fst (service rt_int ?req ?w1) = Inr (PWeather lahore_weather)"
    by (rule lahore_service) (simp_all add: world0_def)
  then have s': "service rt_int ?req ?w1 =
                   (Inr (PWeather lahore_weather), snd (service rt_int ?req ?w1))"
    by (simp add: prod_eq_iff)
  have c: "cache_writes world0 = []" "cache_time world0 = 0"
    by (simp_all add: cache_writes_def world0_def)
  from miss_writes_with_ttl [OF k r h s'] k r wf h s c show ?thesis by simp
qed

section \<open>Faults of the cache service\<close>

text \<open>
  The statement of claim C2, that a fault of a cache operation is not fatal and the request
  still calls upstream and returns its result, fails on the handlers.  Every \<open>await\<close> on
  the cache service stands inside the handler's \<open>try\<close> block, whose \<open>catch\<close> throws
  \<open>ApiError(500)\<close>.  With a faulting cache read and a provider that would answer, the request
  for Lahore fails and nothing is asked of the provider.
\<close>

theorem cache_fault_counterexample:
  "read_fault world_rfault \<and>
   upstream world_rfault (baseUrl @ ''/weather'') (name_params world_rfault ''Lahore'') =
     HttpOk lahore_reply \<and>
   fst (handle rt_int world_rfault (CurrentReq ''Lahore'')) =
     Inl (ApiError 500 ''Failed to fetch weather data'') \<and>
   upstream_calls (snd (handle rt_int world_rfault (CurrentReq ''Lahore''))) = []"
  by (simp add: world_rfault_def world0_def upstream0_def name_params_def getCurrentWeather_def
        cache_aside_def cache_get_def upstream_calls_def)

text \<open>
  Claim C2, amended.  A fault of the cache service is fatal to the request.  A fault on the
  read fails the request with \<open>ApiError(500)\<close> and the handler's message right after the
  read, before any service call.  A fault on the write, after a miss and a successful
  service call, fails the request in the same way: the payload is not returned, and the
  entries of the store are unchanged.
\<close>

theorem cache_fault_is_fatal:
  assumes "cacheKey rt req = Some k"
  shows "(read_fault w \<longrightarrow>
            handle rt w req =
              (Inl (ApiError 500 (message_of req)),
               emit (LogError (log_of req)) (emit (CacheGet k) w))) \<and>
         (\<not> read_fault w \<and> holds w k = None \<and> write_fault w \<and>
          service rt req (emit (CacheGet k) w) = (Inr v, w2) \<longrightarrow>
            handle rt w req =
              (Inl (ApiError 500 (message_of req)),
               emit (LogError (log_of req)) (emit (CacheSet k v (ttl_of req)) w2)) \<and>
            entries (snd (handle rt w req)) = entries w)"
proof (intro conjI impI)
  assume "read_fault w"
  with assms show "handle rt w req =
      (Inl (ApiError 500 (message_of req)), emit (LogError (log_of req)) (emit (CacheGet k) w))"
    by (simp add: handle_cached cache_aside_read_fault)
next
  assume a: "\<not> read_fault w \<and> holds w k = None \<and> write_fault w \<and>
             service rt req (emit (CacheGet k) w) = (Inr v, w2)"
  then have f: "frame (emit (CacheGet k) w) w2"
    using frame_service [of "emit (CacheGet k) w" rt req] by simp
  then have e: "entries w2 = entries w" "write_fault w2 = write_fault w"
    by (simp_all add: frame_def)
  from assms a e show h: "handle rt w req =
      (Inl (ApiError 500 (message_of req)),
       emit (LogError (log_of req)) (emit (CacheSet k v (ttl_of req)) w2))"
    by (simp add: handle_cached cache_aside_miss_ok)
  show "entries (snd (handle rt w req)) = entries w"
    by (simp add: h e)
qed

theorem cache_fault_is_fatal_witness:
  "cacheKey rt_int (CurrentReq ''Lahore'') = Some ''weather:current:Lahore'' \<and>
   read_fault world_rfault \<and>
   handle rt_int world_rfault (CurrentReq ''Lahore'') =
     (Inl (ApiError 500 ''Failed to fetch weather data''),
      emit (LogError ''getCurrentWeather error:'')
        (emit (CacheGet ''weather:current:Lahore'') world_rfault)) \<and>
   \<not> read_fault world_wfault \<and> holds world_wfault ''weather:current:Lahore'' = None \<and>
   write_fault world_wfault \<and>
   fst (service rt_int (CurrentReq ''Lahore'')
          (emit (CacheGet ''weather:current:Lahore'') world_wfault)) =
     Inr (PWeather lahore_weather) \<and>
   fst (handle rt_int world_wfault (CurrentReq ''Lahore'')) =
     Inl (ApiError 500 ''Failed to fetch weather data'') \<and>
   entries (snd (handle rt_int world_wfault (CurrentReq ''Lahore''))) = entries world_wfault"
proof -
  let ?k = "''weather:current:Lahore''"
  let ?req = "CurrentReq ''Lahore''"
  let ?w1 = "emit (CacheGet ?k) world_wfault"
  have k: "cacheKey rt_int ?req = Some ?k" by simp
  have r: "read_fault world_rfault" by (simp add: world_rfault_def)
  have nr: "\<not> read_fault world_wfault" "write_fault world_wfault"
    by (simp_all add: world_wfault_def world0_def)
  have h: "holds world_wfault ?k = None" by (simp add: holds_def world_wfault_def world0_def)
  have s: "fst (service rt_int ?req ?w1) = Inr (PWeather lahore_weather)"
    by (rule lahore_service) (simp_all add: world_wfault_def world0_def)
  then have s': "service rt_int ?req ?w1 =
                   (Inr (PWeather lahore_weather), snd (service rt_int ?req ?w1))"
    by (simp add: prod_eq_iff)
  from cache_fault_is_fatal [OF k, of world_rfault] r
  have A: "handle rt_int world_rfault ?req =
             (Inl (ApiError 500 (message_of ?req)),
              emit (LogError (log_of ?req)) (emit (CacheGet ?k) world_rfault))"
    by blast
  from cache_fault_is_fatal [OF k, of world_wfault "PWeather lahore_weather"
         "snd (service rt_int ?req ?w1)"] nr h s'
  have B: "handle rt_int world_wfault ?req =
             (Inl (ApiError 500 (message_of ?req)),
              emit (LogError (log_of ?req))
                (emit (CacheSet ?k (PWeather lahore_weather) (ttl_of ?req))
                   (snd (service rt_int ?req ?w1)))) \<and>
           entries (snd (handle rt_int world_wfault ?req)) = entries world_wfault"
    by blast
  from A have A': "handle rt_int world_rfault ?req =
     (Inl (ApiError 500 ''Failed to fetch weather data''),
      emit (LogError ''getCurrentWeather error:'') (emit (CacheGet ?k) world_rfault))"
    by simp
  from B have B1: "fst (handle rt_int world_wfault ?req) =
                     Inl (ApiError 500 ''Failed to fetch weather data'')"
    by simp
  from B have B2: "entries (snd (handle rt_int world_wfault ?req)) = entries world_wfault"
    by blast
  from A' B1 B2 k r nr h s show ?thesis by blast
qed

section \<open>Validation of coordinates\<close>

text \<open>
  The statement of claim C3, that a coordinate request with a latitude outside -90..90 or a
  longitude outside -180..180 fails validation before the cache and the provider are touched,
  fails on the routes.  Both coordinate routes check \<open>isFloat()\<close> without bounds and nothing
  after them looks at the range.  Latitude 95 passes, is read from the cache, sent to the
  provider and stored.
\<close>

theorem coords_range_counterexample:
  "\<not> in_range (js_parseFloat rt_int ''95'') (js_parseFloat rt_int ''0'') \<and>
   fst (route_current_coords rt_int world0 ''95'' ''0'') = Inr (PWeather lahore_weather) \<and>
   cache_ops (snd (route_current_coords rt_int world0 ''95'' ''0'')) =
     [CacheSet ''weather:coords:95:0'' (PWeather lahore_weather) 600,
      CacheGet ''weather:coords:95:0''] \<and>
   upstream_calls (snd (route_current_coords rt_int world0 ''95'' ''0'')) =
     [HttpGet (baseUrl @ ''/weather'') (coord_params world0 (Finite 95) (Finite 0)),
      SvcCall ''getCurrentWeatherByCoords'']"
  by (simp add: route_current_coords_def validate_def ninety_five coords_run in_range_def
        cache_ops_def upstream_calls_def)

text \<open>
  Claim C3, amended.  A coordinate request is rejected with a validation failure, the world
  untouched (no cache access, no upstream call), exactly when its \<open>lat\<close> or its \<open>lon\<close>
  parameter fails the validator's \<open>isFloat\<close> check; a request whose parameters pass the
  check runs the handler, whatever numbers they denote.
\<close>

theorem coords_validation:
  "(\<not> (js_isFloat rt lat \<and> js_isFloat rt lon) \<longrightarrow>
      route_current_coords rt w lat lon = (Inl ValidationError, w) \<and>
      route_forecast_coords rt w lat lon = (Inl ValidationError, w)) \<and>
   (js_isFloat rt lat \<and> js_isFloat rt lon \<longrightarrow>
      route_current_coords rt w lat lon = handle rt w (CurrentCoordsReq lat lon) \<and>
      route_forecast_coords rt w lat lon = handle rt w (ForecastCoordsReq lat lon))"
  by (auto simp: route_current_coords_def route_forecast_coords_def validate_def)

theorem coords_validation_witness:
  "\<not> (js_isFloat rt_int ''north'' \<and> js_isFloat rt_int ''0'') \<and>
   route_current_coords rt_int world0 ''north'' ''0'' = (Inl ValidationError, world0) \<and>
   route_forecast_coords rt_int world0 ''north'' ''0'' = (Inl ValidationError, world0) \<and>
   js_isFloat rt_int ''95'' \<and> js_isFloat rt_int ''0'' \<and>
   route_current_coords rt_int world0 ''95'' ''0'' =
     handle rt_int world0 (CurrentCoordsReq ''95'' ''0'') \<and>
   route_forecast_coords rt_int world0 ''95'' ''0'' =
     handle rt_int world0 (ForecastCoordsReq ''95'' ''0'')"
  using coords_validation [of rt_int "''north''" "''0''" world0]
        coords_validation [of rt_int "''95''" "''0''" world0]
        not_literal ninety_five(1,2)
  by blast

section \<open>Failures of the provider\<close>





section \<open>Cache keys\<close>





section \<open>Historical weather\<close>





section \<open>Weather alerts\<close>

text \<open>
  The statement of claim C9 has the alert end 24 hours after its start.  The two times come
  from two readings of the clock, \<open>new Date()\<close> and then \<open>Date.now()\<close>; when the clock
  advances between them, here by a millisecond, the alert lasts longer than 24 hours.
\<close>

theorem alert_end_counterexample:
  "fst (svc_getWeatherAlerts world_alert ''Lahore'') =
     Inr [\<lparr>a_id = ''alert_001'', a_title = ''Heat Wave Warning'',
           a_description = ''Extremely high temperatures expected. Stay hydrated and avoid prolonged sun exposure.'',
           a_severity = ''moderate'', a_startTime = 0, a_endTime = 86400001,
           a_area = ''Lahore''\<rparr>]"
  by code_simp

text \<open>
  Claim C9, amended.  For every location \<open>getWeatherAlerts\<close> returns a list of at most one
  alert and sends no request: its only event is its own call.  The list holds the fixed heat
  wave warning, of severity moderate and for the requested location, when the draw exceeds
  the double \<open>0.8\<close>, and is empty otherwise.  The start of the alert is a reading of the clock
  and its end is the next reading plus 24 hours.
\<close>

theorem weather_alerts:
  "fst (svc_getWeatherAlerts w loc) =
     Inr (if fl (4 / 5) < rand w (rpos w)
          then [\<lparr>a_id = ''alert_001'', a_title = ''Heat Wave Warning'',
                 a_description = ''Extremely high temperatures expected. Stay hydrated and avoid prolonged sun exposure.'',
                 a_severity = ''moderate'', a_startTime = clock w (cpos w),
                 a_endTime = clock w (Suc (cpos w)) + 86400000, a_area = loc\<rparr>]
          else []) \<and>
   trace (snd (svc_getWeatherAlerts w loc)) = SvcCall ''getWeatherAlerts'' # trace w \<and>
   (\<exists>xs. fst (svc_getWeatherAlerts w loc) = Inr xs \<and> length xs \<le> 1)"
  by (simp add: svc_getWeatherAlerts_def random_def now_def Let_def)

section \<open>The UV index\<close>

text \<open>
  The statement of claim C10 has every field but \<open>uvIndex\<close> determined by the reply of the
  provider.  \<open>timestamp\<close> is not: it is the reading of the clock.  Two runs on the same reply
  with the same draw and different clocks differ in it.
\<close>

theorem timestamp_counterexample:
  "rand world_later = rand world0 \<and> rpos world_later = rpos world0 \<and>
   fst (transformWeatherData rt_int world0 lahore_reply) = Inr lahore_weather \<and>
   fst (transformWeatherData rt_int world_later lahore_reply) =
     Inr (lahore_weather\<lparr>timestamp := 5\<rparr>) \<and>
   timestamp lahore_weather \<noteq> 5"
  using transform_runs by (simp add: world_later_def lahore_weather_def)

text \<open>
  Claim C10, amended.  When the draw is a double in \<open>[0, 1)\<close>, the \<open>uvIndex\<close> of a normalized
  current-weather payload is the floor of the draw times 11, an integer from 0 to 10, and
  does not depend on the reply; \<open>timestamp\<close> is the reading of the clock.  A run on the same
  reply in any other world succeeds too, takes its \<open>uvIndex\<close> from its own draw and its
  \<open>timestamp\<close> from its own clock, and gives the same payload otherwise.  The example after
  the theorem has two runs on one reply with the \<open>uvIndex\<close> 0 and 5.
\<close>

theorem uv_index_random:
  assumes "is_draw (rand w (rpos w))" and "fst (transformWeatherData rt w d) = Inr x"
  shows "uvIndex x = \<lfloor>dmul (rand w (rpos w)) 11\<rfloor> \<and> 0 \<le> uvIndex x \<and> uvIndex x \<le> 10 \<and>
         timestamp x = clock w (cpos w) \<and>
         (\<exists>x'. fst (transformWeatherData rt w' d) = Inr x' \<and>
               uvIndex x' = \<lfloor>dmul (rand w' (rpos w')) 11\<rfloor> \<and>
               timestamp x' = clock w' (cpos w') \<and>
               x'\<lparr>uvIndex := uvIndex x, timestamp := timestamp x\<rparr> = x)"
proof -
  from assms(2) obtain h m c where
    h: "weather_head rt d = Inr h" and m: "weather_mid rt d = Inr m"
    and c: "weather_coord d = Inr c"
    by (auto simp: transformWeatherData_def Let_def split: sum.splits prod.splits)
  obtain loc ctry temp feels hum pres rest
    where h0: "h = (loc, ctry, temp, feels, hum, pres, rest)"
    by (rule prod_cases7)
  obtain wspeed deg vis where "rest = (wspeed, deg, vis)" by (rule prod_cases3)
  with h0 have h': "h = (loc, ctry, temp, feels, hum, pres, wspeed, deg, vis)" by simp
  obtain cond desc ic where m': "m = (cond, desc, ic)" by (rule prod_cases3)
  have t: "\<And>u. fst (transformWeatherData rt u d) =
     Inr \<lparr>location = loc, country = ctry, temperature = temp, feelsLike = feels,
          humidity = hum, pressure = pres, windSpeed = wspeed, windDirection = deg,
          visibility = vis, uvIndex = \<lfloor>dmul (rand u (rpos u)) 11\<rfloor>, condition = cond,
          description = desc, icon = ic, timestamp = clock u (cpos u), coordinates = c\<rparr>"
    by (simp add: transformWeatherData_def h h' m m' c random_def now_def)
  from t [of w] assms(2) have x: "x =
     \<lparr>location = loc, country = ctry, temperature = temp, feelsLike = feels,
      humidity = hum, pressure = pres, windSpeed = wspeed, windDirection = deg,
      visibility = vis, uvIndex = \<lfloor>dmul (rand w (rpos w)) 11\<rfloor>, condition = cond,
      description = desc, icon = ic, timestamp = clock w (cpos w), coordinates = c\<rparr>"
    by simp
  from x uv_range [OF assms(1)] t [of w'] show ?thesis by simp
qed

theorem uv_index_random_witness:
  "is_draw (rand world0 (rpos world0)) \<and>
   fst (transformWeatherData rt_int world0 lahore_reply) = Inr lahore_weather \<and>
   uvIndex lahore_weather = \<lfloor>dmul (rand world0 (rpos world0)) 11\<rfloor> \<and>
   uvIndex lahore_weather = 0 \<and>
   fst (transformWeatherData rt_int world_half lahore_reply) = Inr (lahore_weather\<lparr>uvIndex := 5\<rparr>) \<and>
   (\<exists>x'. fst (transformWeatherData rt_int world_half lahore_reply) = Inr x' \<and>
         uvIndex x' = \<lfloor>dmul (rand world_half (rpos world_half)) 11\<rfloor> \<and>
         timestamp x' = clock world_half (cpos world_half) \<and>
         x'\<lparr>uvIndex := uvIndex lahore_weather, timestamp := timestamp lahore_weather\<rparr> =
           lahore_weather)"
proof -
  have d: "is_draw (rand world0 (rpos world0))" by (simp add: world0_def zero_draw)
  from uv_index_random [OF d transform_runs(1), of world_half]
  have A: "uvIndex lahore_weather = \<lfloor>dmul (rand world0 (rpos world0)) 11\<rfloor>"
    and B: "\<exists>x'. fst (transformWeatherData rt_int world_half lahore_reply) = Inr x' \<and>
         uvIndex x' = \<lfloor>dmul (rand world_half (rpos world_half)) 11\<rfloor> \<and>
         timestamp x' = clock world_half (cpos world_half) \<and>
         x'\<lparr>uvIndex := uvIndex lahore_weather, timestamp := timestamp lahore_weather\<rparr> =
           lahore_weather"
    by blast+
  have z: "uvIndex lahore_weather = 0" by (simp add: lahore_weather_def)
  from d transform_runs(1,2) A B z show ?thesis by blast
qed


end
